theory Spec2Isabelle
  imports Complex_Main
begin

section \<open>Errors\<close>

text \<open>
  Every exception of the Python source is a value. \<open>AttributeError\<close>, \<open>NameError\<close> and
  \<open>ZeroDivisionError\<close> are raised by the interpreter while it evaluates an expression
  written in \<^verbatim>\<open>ddpg.py\<close> itself (an attribute lookup, a global name lookup, the
  \<^verbatim>\<open>%\<close> operator). \<open>ValueError\<close>, \<open>TensorError\<close> and \<open>OSError\<close> are raised inside a
  library call (\<^verbatim>\<open>deque\<close>, \<^verbatim>\<open>random.sample\<close>, numpy and torch operations on arrays whose
  shapes or indices do not fit, \<^verbatim>\<open>torch.save\<close> on a path that cannot be opened for writing).
\<close>

datatype error =
  AttributeError | NameError | ZeroDivisionError | ValueError | TensorError | OSError

fun library_error :: "error \<Rightarrow> bool" where
  "library_error AttributeError = False"
| "library_error NameError = False"
| "library_error ZeroDivisionError = False"
| "library_error ValueError = True"
| "library_error TensorError = True"
| "library_error OSError = True"

section \<open>The replay buffer\<close>

text \<open>
  \<^verbatim>\<open>collections.deque(maxlen=n)\<close>: the constructor raises \<open>ValueError\<close> for a negative
  \<open>n\<close>; \<^verbatim>\<open>append\<close> adds on the right and then drops the leftmost item when the length
  has grown beyond \<open>maxlen\<close>.
\<close>

record 'e deque =
  items :: "'e list"
  maxlen :: int

definition deque_init :: "int \<Rightarrow> error + 'e deque" where
  "deque_init n = (if n < 0 then Inl ValueError else Inr \<lparr>items = [], maxlen = n\<rparr>)"

definition deque_append :: "'e deque \<Rightarrow> 'e \<Rightarrow> 'e deque" where
  "deque_append d e =
     (let xs = items d @ [e]
      in if maxlen d < int (length xs) then d\<lparr>items := tl xs\<rparr> else d\<lparr>items := xs\<rparr>)"

text \<open>The named tuple \<^verbatim>\<open>Experience(state, action, reward, next_state, done)\<close>.\<close>

record 'a experience =
  e_state :: "'a list"
  e_action :: "'a list"
  e_reward :: 'a
  e_next_state :: "'a list"
  e_done :: bool

text \<open>
  An instance of \<^verbatim>\<open>ReplayBuffer\<close>. \<^verbatim>\<open>__init__(self, buffer_size, seed)\<close> binds the
  attributes \<^verbatim>\<open>memory\<close>, \<^verbatim>\<open>experience\<close> and \<^verbatim>\<open>seed\<close> (the latter is the \<^verbatim>\<open>None\<close>
  returned by \<^verbatim>\<open>random.seed\<close>). The attribute \<^verbatim>\<open>batch_size\<close>, which \<^verbatim>\<open>sample\<close> reads,
  is bound neither by \<^verbatim>\<open>__init__\<close> nor by any other method nor on the class; the field
  \<open>rb_batch_size\<close> records whether it is bound (\<open>None\<close>: looking it up raises
  \<open>AttributeError\<close>).
\<close>

record 'a ReplayBuffer =
  rb_memory :: "'a experience deque"
  rb_batch_size :: "int option"

definition ReplayBuffer_init :: "int \<Rightarrow> int \<Rightarrow> error + 'a ReplayBuffer" where
  "ReplayBuffer_init buffer_size seed =
     (case deque_init buffer_size of
        Inl err \<Rightarrow> Inl err
      | Inr d \<Rightarrow> Inr \<lparr>rb_memory = d, rb_batch_size = None\<rparr>)"

definition ReplayBuffer_add ::
  "'a ReplayBuffer \<Rightarrow> 'a list \<Rightarrow> 'a list \<Rightarrow> 'a \<Rightarrow> 'a list \<Rightarrow> bool \<Rightarrow> 'a ReplayBuffer" where
  "ReplayBuffer_add rb state action reward next_state done =
     (let e = \<lparr>e_state = state, e_action = action, e_reward = reward,
                e_next_state = next_state, e_done = done\<rparr>
      in rb\<lparr>rb_memory := deque_append (rb_memory rb) e\<rparr>)"

definition ReplayBuffer_len :: "'a ReplayBuffer \<Rightarrow> nat" where
  "ReplayBuffer_len rb = length (items (rb_memory rb))"

text \<open>A sequence of \<^verbatim>\<open>add\<close> calls, each given by the experience it stores.\<close>

fun ReplayBuffer_adds :: "'a ReplayBuffer \<Rightarrow> 'a experience list \<Rightarrow> 'a ReplayBuffer" where
  "ReplayBuffer_adds rb [] = rb"
| "ReplayBuffer_adds rb (e # es) =
     ReplayBuffer_adds
       (ReplayBuffer_add rb (e_state e) (e_action e) (e_reward e) (e_next_state e) (e_done e)) es"

section \<open>The random number generator\<close>

text \<open>
  The module \<^verbatim>\<open>random\<close> keeps one global generator. Its state is modelled by the stream
  of the 53-bit integers it will produce next. \<^verbatim>\<open>random.random()\<close> takes the next integer
  \<open>k\<close> and returns \<open>k / 2^53\<close>, a number in the half-open interval from 0 to 1.
\<close>

type_synonym rng = "nat \<Rightarrow> nat"

definition random_random :: "rng \<Rightarrow> ('a::field) \<times> rng" where
  "random_random g = (of_nat (g 0 mod 2 ^ 53) / 2 ^ 53, \<lambda>i. g (Suc i))"

text \<open>\<^verbatim>\<open>[random.random() for i in range(n)]\<close>\<close>

fun random_draws :: "nat \<Rightarrow> rng \<Rightarrow> ('a::field) list \<times> rng" where
  "random_draws 0 g = ([], g)"
| "random_draws (Suc n) g =
     (let (w, g1) = random_random g;
          (ws, g2) = random_draws n g1
      in (w # ws, g2))"

text \<open>
  \<^verbatim>\<open>random.sample(population, k)\<close>: \<open>ValueError\<close> unless \<open>0 \<le> k \<le> len(population)\<close>;
  otherwise \<open>k\<close> items at distinct positions. CPython selects them from a shrinking pool
  when the population has at most 21 items (more for a larger \<open>k\<close>) and by rejecting
  positions already chosen otherwise, and it draws a position below \<open>n\<close> by rejection from
  the bits of the generator. The model selects from the pool for every size and takes the
  next output of the generator modulo \<open>n\<close>: which items are selected is an abstraction of
  the library, that they are \<open>k\<close> items of the population is not. From a population of one
  item both select that item.
\<close>

fun pool_select :: "rng \<Rightarrow> 'e list \<Rightarrow> nat \<Rightarrow> 'e list \<times> rng" where
  "pool_select g pool 0 = ([], g)"
| "pool_select g pool (Suc k) =
     (let j = g 0 mod length pool;
          (es, g') = pool_select (\<lambda>i. g (Suc i)) (butlast (pool[j := last pool])) k
      in (pool ! j # es, g'))"

definition random_sample :: "rng \<Rightarrow> 'e list \<Rightarrow> int \<Rightarrow> (error + 'e list) \<times> rng" where
  "random_sample g population k =
     (if 0 \<le> k \<and> k \<le> int (length population)
      then (let (es, g') = pool_select g population (nat k) in (Inr es, g'))
      else (Inl ValueError, g))"

section \<open>Arrays\<close>

text \<open>
  A one-dimensional numpy array or torch tensor is the list of its entries. A binary
  operation on two arrays works entry by entry when the lengths agree, broadcasts an array
  of length one, and raises otherwise (\<open>ValueError\<close> in numpy, a \<open>RuntimeError\<close> in torch,
  here \<open>TensorError\<close>).
\<close>

definition broadcast :: "error \<Rightarrow> ('a \<Rightarrow> 'a \<Rightarrow> 'a) \<Rightarrow> 'a list \<Rightarrow> 'a list \<Rightarrow> error + 'a list" where
  "broadcast err f a b =
     (if length a = length b then Inr (map2 f a b)
      else if length a = 1 then Inr (map (f (hd a)) b)
      else if length b = 1 then Inr (map (\<lambda>x. f x (hd b)) a)
      else Inl err)"

definition np_add :: "('a::plus) list \<Rightarrow> 'a list \<Rightarrow> error + 'a list" where
  "np_add a b = broadcast ValueError (+) a b"

definition np_sub :: "('a::minus) list \<Rightarrow> 'a list \<Rightarrow> error + 'a list" where
  "np_sub a b = broadcast ValueError (-) a b"

text \<open>\<^verbatim>\<open>c * a\<close> for a scalar \<open>c\<close>, and \<^verbatim>\<open>a * c\<close>.\<close>

definition scale :: "('a::times) \<Rightarrow> 'a list \<Rightarrow> 'a list" where
  "scale c a = map (\<lambda>x. c * x) a"

definition scale_right :: "('a::times) list \<Rightarrow> 'a \<Rightarrow> 'a list" where
  "scale_right a c = map (\<lambda>x. x * c) a"

text \<open>
  An entry of a float array is a number or NaN. An arithmetic operation with a NaN operand
  gives NaN, and so do \<^verbatim>\<open>np.maximum\<close> and \<^verbatim>\<open>np.minimum\<close>; a comparison with NaN is
  false, so NaN lies in no interval. (Rounding and the infinities are left out.)
\<close>

datatype 'a float = NaN | Num 'a

instantiation float :: (plus) plus
begin

fun plus_float :: "'a float \<Rightarrow> 'a float \<Rightarrow> 'a float" where
  "plus_float (Num x) (Num y) = Num (x + y)"
| "plus_float _ _ = NaN"

instance ..

end

fun np_maximum :: "('a::linorder) float \<Rightarrow> 'a float \<Rightarrow> 'a float" where
  "np_maximum (Num x) (Num y) = Num (max x y)"
| "np_maximum _ _ = NaN"

fun np_minimum :: "('a::linorder) float \<Rightarrow> 'a float \<Rightarrow> 'a float" where
  "np_minimum (Num x) (Num y) = Num (min x y)"
| "np_minimum _ _ = NaN"

text \<open>\<^verbatim>\<open>lo <= x <= hi\<close> for an entry \<open>x\<close> of a float array.\<close>

fun in_interval :: "('a::ord) \<Rightarrow> 'a \<Rightarrow> 'a float \<Rightarrow> bool" where
  "in_interval lo hi NaN = False"
| "in_interval lo hi (Num x) = (lo \<le> x \<and> x \<le> hi)"

text \<open>\<^verbatim>\<open>a += b\<close> on arrays: the result must have the shape of \<open>a\<close>.\<close>

definition np_iadd :: "('a::plus) list \<Rightarrow> 'a list \<Rightarrow> error + 'a list" where
  "np_iadd a b =
     (if length b = length a then Inr (map2 (+) a b)
      else if length b = 1 then Inr (map (\<lambda>x. x + hd b) a)
      else Inl ValueError)"

text \<open>\<^verbatim>\<open>np.clip(a, lo, hi)\<close> is \<^verbatim>\<open>np.minimum(hi, np.maximum(a, lo))\<close>.\<close>

definition np_clip :: "('a::linorder) float list \<Rightarrow> 'a \<Rightarrow> 'a \<Rightarrow> 'a float list" where
  "np_clip a lo hi = map (\<lambda>x. np_minimum (Num hi) (np_maximum x (Num lo))) a"

text \<open>
  \<^verbatim>\<open>t[lo:hi]\<close> on the rows of a tensor, with the clamping of Python's slices, and
  \<^verbatim>\<open>t[:, i]\<close>, which raises when \<open>i\<close> is no index of a row (an \<open>IndexError\<close> of torch,
  here \<open>TensorError\<close>).
\<close>

definition py_slice :: "'x list \<Rightarrow> int \<Rightarrow> int \<Rightarrow> 'x list" where
  "py_slice xs lo hi =
     (let n = int (length xs);
          a = (if lo < 0 then max (lo + n) 0 else min lo n);
          b = (if hi < 0 then max (hi + n) 0 else min hi n)
      in take (nat (b - a)) (drop (nat a) xs))"

definition column :: "'x list list \<Rightarrow> int \<Rightarrow> error + 'x list" where
  "column rows i =
     (if list_all (\<lambda>r. - int (length r) \<le> i \<and> i < int (length r)) rows
      then Inr (map (\<lambda>r. r ! nat (if i < 0 then i + int (length r) else i)) rows)
      else Inl TensorError)"

text \<open>
  \<^verbatim>\<open>np.vstack(rows)\<close>: \<open>ValueError\<close> for an empty list of rows and for rows of different
  lengths.
\<close>

definition np_vstack :: "'a list list \<Rightarrow> error + 'a list list" where
  "np_vstack rows =
     (if rows = [] then Inl ValueError
      else if list_all (\<lambda>r. length r = length (hd rows)) rows then Inr rows
      else Inl ValueError)"

text \<open>\<^verbatim>\<open>tau * l + (1.0 - tau) * t\<close> on tensors, and \<^verbatim>\<open>t.copy_(v)\<close>.\<close>

definition torch_add :: "('a::plus) list \<Rightarrow> 'a list \<Rightarrow> error + 'a list" where
  "torch_add a b = broadcast TensorError (+) a b"

definition torch_copy :: "'a list \<Rightarrow> 'a list \<Rightarrow> error + 'a list" where
  "torch_copy t v =
     (if length v = length t then Inr v
      else if length v = 1 then Inr (replicate (length t) (hd v))
      else Inl TensorError)"

section \<open>The Ornstein-Uhlenbeck noise\<close>

record 'a OUNoise =
  mu :: "'a list"
  theta :: 'a
  sigma :: 'a
  state :: "'a list"

definition OUNoise_reset :: "'a OUNoise \<Rightarrow> 'a OUNoise" where
  "OUNoise_reset n = n\<lparr>state := mu n\<rparr>"

text \<open>
  \<^verbatim>\<open>OUNoise(size, seed, mu=0., theta=0.15, sigma=0.2)\<close>; \<^verbatim>\<open>np.ones(size)\<close> raises
  \<open>ValueError\<close> for a negative size.
\<close>

definition OUNoise_init ::
  "int \<Rightarrow> int \<Rightarrow> 'a \<Rightarrow> 'a \<Rightarrow> 'a \<Rightarrow> error + ('a::{times,one}) OUNoise" where
  "OUNoise_init sz seed mu0 theta0 sigma0 =
     (if sz < 0 then Inl ValueError
      else Inr (OUNoise_reset
        \<lparr>mu = scale mu0 (replicate (nat sz) 1), theta = theta0, sigma = sigma0, state = []\<rparr>))"

text \<open>
  \<^verbatim>\<open>sample\<close>: the outcome (the new state, or the error of an array operation), the
  generator after the draws, and the noise object after the call.
\<close>

definition OUNoise_sample ::
  "rng \<Rightarrow> ('a::field) OUNoise \<Rightarrow> (error + 'a list) \<times> rng \<times> 'a OUNoise" where
  "OUNoise_sample g n =
     (let x = state n
      in case np_sub (mu n) x of
           Inl err \<Rightarrow> (Inl err, g, n)
         | Inr d \<Rightarrow>
             (let (ws, g') = random_draws (length x) g
              in case np_add (scale (theta n) d) (scale (sigma n) ws) of
                   Inl err \<Rightarrow> (Inl err, g', n)
                 | Inr dx \<Rightarrow>
                     (case np_add x dx of
                        Inl err \<Rightarrow> (Inl err, g', n)
                      | Inr s \<Rightarrow> (Inr s, g', n\<lparr>state := s\<rparr>))))"

section \<open>Sampling from the replay buffer\<close>

text \<open>
  The five stacked arrays returned by \<^verbatim>\<open>ReplayBuffer.sample\<close>. No stored experience is
  \<^verbatim>\<open>None\<close> (\<^verbatim>\<open>add\<close> always stores a named tuple), so the filters
  \<^verbatim>\<open>if e is not None\<close> keep every experience.
\<close>

type_synonym 'a batch = "'a list list \<times> 'a list list \<times> 'a list list \<times> 'a list list \<times> 'a list list"

definition stack_batch :: "('a::{zero,one}) experience list \<Rightarrow> error + 'a batch" where
  "stack_batch experiences =
     (case np_vstack (map e_state experiences) of Inl err \<Rightarrow> Inl err | Inr states \<Rightarrow>
      case np_vstack (map e_action experiences) of Inl err \<Rightarrow> Inl err | Inr actions \<Rightarrow>
      case np_vstack (map (\<lambda>e. [e_reward e]) experiences) of Inl err \<Rightarrow> Inl err | Inr rewards \<Rightarrow>
      case np_vstack (map e_next_state experiences) of Inl err \<Rightarrow> Inl err | Inr next_states \<Rightarrow>
      case np_vstack (map (\<lambda>e. [if e_done e then 1 else 0]) experiences) of
        Inl err \<Rightarrow> Inl err
      | Inr dones \<Rightarrow> Inr (states, actions, rewards, next_states, dones))"

text \<open>
  \<^verbatim>\<open>random.sample(self.memory, k=self.batch_size)\<close>: the arguments are evaluated before
  the call, and the lookup of \<^verbatim>\<open>self.batch_size\<close> raises \<open>AttributeError\<close> when the
  attribute is not bound.
\<close>

definition ReplayBuffer_sample ::
  "rng \<Rightarrow> ('a::{zero,one}) ReplayBuffer \<Rightarrow> (error + 'a batch) \<times> rng" where
  "ReplayBuffer_sample g rb =
     (case rb_batch_size rb of
        None \<Rightarrow> (Inl AttributeError, g)
      | Some k \<Rightarrow>
          (case random_sample g (items (rb_memory rb)) k of
             (Inl err, g') \<Rightarrow> (Inl err, g')
           | (Inr experiences, g') \<Rightarrow> (stack_batch experiences, g')))"

section \<open>Networks and the soft update\<close>

text \<open>
  A torch model owns parameter tensors, which are objects updated in place. The heap maps
  the identity of a parameter to its current \<^verbatim>\<open>data\<close>; a model is the list of the
  identities that \<^verbatim>\<open>parameters()\<close> yields, in order.
\<close>

type_synonym 'a heap = "nat \<Rightarrow> 'a list"

type_synonym model = "nat list"

text \<open>
  The loop of \<^verbatim>\<open>soft_update\<close> over \<^verbatim>\<open>zip(target_model.parameters(),
  local_model.parameters())\<close>. An error of a tensor operation ends the loop and leaves the
  parameters updated so far as they are.
\<close>

fun soft_update_loop ::
  "(nat \<times> nat) list \<Rightarrow> ('a::{one,plus,minus,times}) \<Rightarrow> 'a heap \<Rightarrow> error option \<times> 'a heap" where
  "soft_update_loop [] tau h = (None, h)"
| "soft_update_loop ((target_param, local_param) # ps) tau h =
     (case torch_add (scale tau (h local_param)) (scale (1 - tau) (h target_param)) of
        Inl err \<Rightarrow> (Some err, h)
      | Inr v \<Rightarrow>
          (case torch_copy (h target_param) v of
             Inl err \<Rightarrow> (Some err, h)
           | Inr v' \<Rightarrow> soft_update_loop ps tau (h(target_param := v'))))"

definition soft_update ::
  "model \<Rightarrow> model \<Rightarrow> ('a::{one,plus,minus,times}) \<Rightarrow> 'a heap \<Rightarrow> error option \<times> 'a heap" where
  "soft_update local_model target_model tau h =
     soft_update_loop (zip target_model local_model) tau h"

section \<open>The agent\<close>

text \<open>
  An instance of \<^verbatim>\<open>DDGP\<close>. The four networks share the heap \<open>params\<close>; the state of an
  optimizer is a value of the type \<open>'o\<close>, which the agent only passes on.
\<close>

record ('a, 'o) DDGP =
  name :: string
  state_size :: int
  action_size :: int
  buffer_size :: int
  batch_size :: int
  min_req_exp :: int
  consec_learn_iter :: int
  learn_every :: int
  lr_actor :: 'a
  lr_critic :: 'a
  weight_decay :: 'a
  tau :: 'a
  gamma :: 'a
  params :: "'a heap"
  actor_local :: model
  actor_target :: model
  actor_optimizer :: 'o
  critic_local :: model
  critic_target :: model
  critic_optimizer :: 'o
  noise :: "'a OUNoise"
  memory :: "'a ReplayBuffer"
  step_mem :: int
  train :: bool
  exploration :: 'a

text \<open>
  The classes \<^verbatim>\<open>Actor\<close> and \<^verbatim>\<open>Critic\<close> come from the module \<^verbatim>\<open>model\<close> and the
  optimizers from torch. What their constructors build is a parameter of the model of
  \<^verbatim>\<open>__init__\<close>, and so are the computations of torch that \<^verbatim>\<open>act\<close> and \<^verbatim>\<open>learn\<close> call:
  the forward pass of the local actor on a state, the forward passes of the target
  networks on \<^verbatim>\<open>next_state\<close> (lines 150 to 151), the critic's loss, gradients and
  optimizer step from \<^verbatim>\<open>state\<close>, \<^verbatim>\<open>action\<close>, \<^verbatim>\<open>reward\<close>, \<^verbatim>\<open>GAMMA\<close>,
  \<^verbatim>\<open>Q_targets_next\<close> and \<^verbatim>\<open>done\<close> (lines 153 to 161) and the actor's from \<^verbatim>\<open>state\<close>
  (lines 165 to 171). An optimizer step returns the heap and the state of the optimizer
  after it.
\<close>

record ('a, 'o) networks =
  n_params :: "'a heap"
  n_actor_local :: model
  n_actor_target :: model
  n_actor_optimizer :: 'o
  n_critic_local :: model
  n_critic_target :: model
  n_critic_optimizer :: 'o

record ('a, 'o) torch =
  actor_forward :: "'a heap \<Rightarrow> model \<Rightarrow> 'a float list \<Rightarrow> error + 'a float list"
  q_targets_next :: "('a, 'o) DDGP \<Rightarrow> 'a list list \<Rightarrow> error + 'a list list"
  critic_step ::
    "('a, 'o) DDGP \<Rightarrow> 'a list list \<Rightarrow> 'a list list \<Rightarrow> 'a list \<Rightarrow> 'a \<Rightarrow> 'a list list \<Rightarrow> 'a list \<Rightarrow>
     error + 'a heap \<times> 'o"
  actor_step :: "('a, 'o) DDGP \<Rightarrow> 'a list list \<Rightarrow> error + 'a heap \<times> 'o"

text \<open>
  \<^verbatim>\<open>__init__\<close> builds the networks first, then the noise and the replay buffer. The three
  constructors of this module also call \<^verbatim>\<open>random.seed\<close>, which replaces the state of the
  global generator; the operations below take the generator's state as an argument, and
  every property holds for all of its states.
\<close>

definition DDGP_init ::
  "('a, 'o) networks \<Rightarrow> string \<Rightarrow> int \<Rightarrow> int \<Rightarrow> int \<Rightarrow> int \<Rightarrow> int \<Rightarrow> int \<Rightarrow> int \<Rightarrow> int \<Rightarrow>
   'a \<Rightarrow> 'a \<Rightarrow> 'a \<Rightarrow> 'a \<Rightarrow> 'a \<Rightarrow> error + ('a::field, 'o) DDGP" where
  "DDGP_init nets name0 state_size0 action_size0 random_seed buffer_size0 batch_size0
     min_req_exp0 consec_learn_iter0 learn_every0 lr_actor0 lr_critic0 weight_decay0 tau0 gamma0 =
     (case OUNoise_init action_size0 random_seed 0 0.15 0.2 of
        Inl err \<Rightarrow> Inl err
      | Inr noise0 \<Rightarrow>
          (case ReplayBuffer_init buffer_size0 random_seed of
             Inl err \<Rightarrow> Inl err
           | Inr memory0 \<Rightarrow>
               Inr \<lparr>name = name0, state_size = state_size0, action_size = action_size0,
                    buffer_size = buffer_size0, batch_size = batch_size0,
                    min_req_exp = min_req_exp0, consec_learn_iter = consec_learn_iter0,
                    learn_every = learn_every0, lr_actor = lr_actor0, lr_critic = lr_critic0,
                    weight_decay = weight_decay0, tau = tau0, gamma = gamma0,
                    params = n_params nets,
                    actor_local = n_actor_local nets, actor_target = n_actor_target nets,
                    actor_optimizer = n_actor_optimizer nets,
                    critic_local = n_critic_local nets, critic_target = n_critic_target nets,
                    critic_optimizer = n_critic_optimizer nets,
                    noise = noise0, memory = memory0,
                    step_mem = 0, train = False, exploration = 1.0\<rparr>))"

definition memorize ::
  "('a, 'o) DDGP \<Rightarrow> 'a list \<Rightarrow> 'a list \<Rightarrow> 'a \<Rightarrow> 'a list \<Rightarrow> bool \<Rightarrow> ('a, 'o) DDGP" where
  "memorize ag state0 action reward next_tate done =
     ag\<lparr>memory := ReplayBuffer_add (memory ag) state0 action reward next_tate done\<rparr>"

text \<open>
  The global namespace of the module \<^verbatim>\<open>ddpg\<close> is state that exists at run time. The
  module binds its imports, \<^verbatim>\<open>device\<close>, its three classes and \<^verbatim>\<open>proces_samples\<close>.
  \<^verbatim>\<open>learn\<close> looks up three more global names, \<^verbatim>\<open>agent\<close>, \<^verbatim>\<open>BATCH_SIZE\<close> and
  \<^verbatim>\<open>GAMMA\<close>, which are no builtins: a lookup raises \<open>NameError\<close> unless a caller has bound
  the name in the module. The namespace holds the bindings of these three names;
  \<open>module_globals\<close> is the namespace as the module itself leaves it.
\<close>

record 'a namespace =
  ns_agent :: "int option"
  ns_BATCH_SIZE :: "int option"
  ns_GAMMA :: "'a option"

definition module_globals :: "'a namespace" where
  "module_globals = \<lparr>ns_agent = None, ns_BATCH_SIZE = None, ns_GAMMA = None\<rparr>"

text \<open>
  Lines 136 to 171 of \<^verbatim>\<open>learn\<close>, up to the optimizer step of the actor: the error raised,
  if any, the generator and the agent at that point. Line 142 looks up \<^verbatim>\<open>agent\<close> and then
  \<^verbatim>\<open>BATCH_SIZE\<close>; line 153 looks up \<^verbatim>\<open>GAMMA\<close> after the forward passes of the target
  networks.
\<close>

definition learn_optimize ::
  "'a namespace \<Rightarrow> ('a, 'o) torch \<Rightarrow> rng \<Rightarrow> ('a::field, 'o) DDGP \<Rightarrow>
   error option \<times> rng \<times> ('a, 'o) DDGP" where
  "learn_optimize ns lib g ag =
     (let ag1 = ag\<lparr>exploration := exploration ag * 0.999\<rparr>
      in case ReplayBuffer_sample g (memory ag1) of
           (Inl err, g') \<Rightarrow> (Some err, g', ag1)
         | (Inr (states, actions, rewards, next_states, dones), g') \<Rightarrow>
      (case ns_agent ns of None \<Rightarrow> (Some NameError, g', ag1) | Some agent \<Rightarrow>
      (case ns_BATCH_SIZE ns of None \<Rightarrow> (Some NameError, g', ag1) | Some BATCH_SIZE \<Rightarrow>
      (let state0 = py_slice states (agent * BATCH_SIZE) ((agent + 1) * BATCH_SIZE);
           action = py_slice actions (agent * BATCH_SIZE) ((agent + 1) * BATCH_SIZE)
       in case column rewards agent of Inl err \<Rightarrow> (Some err, g', ag1) | Inr reward \<Rightarrow>
      (let next_state = py_slice next_states (agent * BATCH_SIZE) ((agent + 1) * BATCH_SIZE)
       in case column dones agent of Inl err \<Rightarrow> (Some err, g', ag1) | Inr done \<Rightarrow>
      (case q_targets_next lib ag1 next_state of
         Inl err \<Rightarrow> (Some err, g', ag1)
       | Inr Q_targets_next \<Rightarrow>
      (case ns_GAMMA ns of None \<Rightarrow> (Some NameError, g', ag1) | Some GAMMA \<Rightarrow>
      (case critic_step lib ag1 state0 action reward GAMMA Q_targets_next done of
         Inl err \<Rightarrow> (Some err, g', ag1)
       | Inr (h2, o2) \<Rightarrow>
      (let ag2 = ag1\<lparr>params := h2, critic_optimizer := o2\<rparr>
       in case actor_step lib ag2 state0 of
            Inl err \<Rightarrow> (Some err, g', ag2)
          | Inr (h3, o3) \<Rightarrow>
              (None, g', ag2\<lparr>params := h3, actor_optimizer := o3\<rparr>))))))))))"

text \<open>
  \<^verbatim>\<open>learn\<close>: lines 136 to 171 and then the two soft updates of lines 174 and 175.
\<close>

definition learn ::
  "'a namespace \<Rightarrow> ('a, 'o) torch \<Rightarrow> rng \<Rightarrow> ('a::field, 'o) DDGP \<Rightarrow>
   error option \<times> rng \<times> ('a, 'o) DDGP" where
  "learn ns lib g ag =
     (case learn_optimize ns lib g ag of
        (Some err, g', ag') \<Rightarrow> (Some err, g', ag')
      | (None, g', ag3) \<Rightarrow>
          (case soft_update (critic_local ag3) (critic_target ag3) (tau ag3) (params ag3) of
             (Some err, h4) \<Rightarrow> (Some err, g', ag3\<lparr>params := h4\<rparr>)
           | (None, h4) \<Rightarrow>
               (case soft_update (actor_local ag3) (actor_target ag3) (tau ag3) h4 of
                  (r, h5) \<Rightarrow> (r, g', ag3\<lparr>params := h5\<rparr>))))"

definition trigger_learn ::
  "'a namespace \<Rightarrow> ('a, 'o) torch \<Rightarrow> rng \<Rightarrow> ('a::field, 'o) DDGP \<Rightarrow>
   error option \<times> rng \<times> ('a, 'o) DDGP" where
  "trigger_learn ns lib g ag =
     (let ag1 = ag\<lparr>train := False, exploration := exploration ag * 0.975\<rparr>
      in if batch_size ag1 < int (ReplayBuffer_len (memory ag1)) then learn ns lib g ag1
         else (None, g, ag1))"

text \<open>
  \<^verbatim>\<open>update_counter\<close>: the operator \<^verbatim>\<open>%\<close> raises \<open>ZeroDivisionError\<close> for a zero
  \<^verbatim>\<open>learn_every\<close>, after the counter has been incremented.
\<close>

definition update_counter :: "('a, 'o) DDGP \<Rightarrow> error option \<times> ('a, 'o) DDGP" where
  "update_counter ag =
     (let ag1 = ag\<lparr>step_mem := step_mem ag + 1\<rparr>
      in if learn_every ag1 = 0 then (Some ZeroDivisionError, ag1)
         else if step_mem ag1 mod learn_every ag1 = 0 then (None, ag1\<lparr>train := True\<rparr>)
         else (None, ag1))"

text \<open>
  \<^verbatim>\<open>act\<close> for a one-dimensional state: the outcome (the clipped action, or the error of
  the forward pass or of an array operation), the generator and the agent after the call.
  The conversion of the state to a tensor and the forward pass are the parameter
  \<open>actor_forward\<close>; the switches \<^verbatim>\<open>eval()\<close> and \<^verbatim>\<open>train()\<close> around it restore the mode
  of the network and touch no parameter. \<^verbatim>\<open>self.noise.sample() * self.exploration\<close> is a
  new array, so the state of the noise is not changed by the addition. The state and the
  action are float arrays, whose entries may be NaN; the noise is a number in every entry.
\<close>

definition act ::
  "('a, 'o) torch \<Rightarrow> rng \<Rightarrow> ('a::linordered_field, 'o) DDGP \<Rightarrow> 'a float list \<Rightarrow> bool \<Rightarrow>
   (error + 'a float list) \<times> rng \<times> ('a, 'o) DDGP" where
  "act lib g ag state0 add_noise =
     (case actor_forward lib (params ag) (actor_local ag) state0 of
        Inl err \<Rightarrow> (Inl err, g, ag)
      | Inr action \<Rightarrow>
          if add_noise
          then (case OUNoise_sample g (noise ag) of
                  (Inl err, g', noise') \<Rightarrow> (Inl err, g', ag\<lparr>noise := noise'\<rparr>)
                | (Inr s, g', noise') \<Rightarrow>
                    (case np_iadd action (map Num (scale_right s (exploration ag))) of
                       Inl err \<Rightarrow> (Inl err, g', ag\<lparr>noise := noise'\<rparr>)
                     | Inr action' \<Rightarrow>
                         (Inr (np_clip action' (- 1) 1), g', ag\<lparr>noise := noise'\<rparr>)))
          else (Inr (np_clip action (- 1) 1), g, ag))"

definition reset :: "('a, 'o) DDGP \<Rightarrow> ('a, 'o) DDGP" where
  "reset ag = ag\<lparr>noise := OUNoise_reset (noise ag), step_mem := 0, train := False\<rparr>"

section \<open>Checkpoints\<close>

text \<open>\<^verbatim>\<open>str\<close> of an integer, as \<^verbatim>\<open>'{}'.format\<close> prints it.\<close>

fun str_nat :: "nat \<Rightarrow> string" where
  "str_nat n =
     (if n < 10 then [''0123456789'' ! n]
      else str_nat (n div 10) @ [''0123456789'' ! (n mod 10)])"

declare str_nat.simps [simp del]

definition str_int :: "int \<Rightarrow> string" where
  "str_int i = (if i < 0 then ''-'' @ str_nat (nat (- i)) else str_nat (nat i))"

text \<open>\<^verbatim>\<open>os.path.join(a, b)\<close> of \<^verbatim>\<open>posixpath\<close>.\<close>

definition os_path_join :: "string \<Rightarrow> string \<Rightarrow> string" where
  "os_path_join a b =
     (if take 1 b = ''/'' then b
      else if a = [] \<or> last a = CHR ''/'' then a @ b
      else a @ ''/'' @ b)"

text \<open>
  The state dictionary of a network holds the data of its parameters, that of an optimizer
  its state. The file system maps a path to the object stored in the file there, and says
  of every path whether a file at it can be opened for writing (its directory exists, it
  is no directory itself, the permissions allow it). \<^verbatim>\<open>torch.save(obj, path)\<close> stores the
  object in the file at such a path; at any other path it raises (\<open>OSError\<close>) and writes
  nothing.
\<close>

datatype ('a, 'o) state_dict = Network_state "'a list list" | Optimizer_state 'o

definition state_dict :: "'a heap \<Rightarrow> model \<Rightarrow> ('a, 'o) state_dict" where
  "state_dict h m = Network_state (map h m)"

record ('a, 'o) files =
  writable :: "string \<Rightarrow> bool"
  contents :: "string \<rightharpoonup> (string \<times> ('a, 'o) state_dict) list"

definition torch_save ::
  "('a, 'o) files \<Rightarrow> (string \<times> ('a, 'o) state_dict) list \<Rightarrow> string \<Rightarrow>
   error option \<times> ('a, 'o) files" where
  "torch_save fs obj path =
     (if writable fs path then (None, fs\<lparr>contents := (contents fs)(path \<mapsto> obj)\<rparr>)
      else (Some OSError, fs))"

text \<open>The dictionary \<^verbatim>\<open>save_dict\<close> that \<^verbatim>\<open>save\<close> builds, in the order of its keys.\<close>

definition save_dict :: "('a, 'o) DDGP \<Rightarrow> (string \<times> ('a, 'o) state_dict) list" where
  "save_dict ag =
     [(''actor_local_params'', state_dict (params ag) (actor_local ag)),
      (''actor_target_params'', state_dict (params ag) (actor_target ag)),
      (''actor_optim_params'', Optimizer_state (actor_optimizer ag)),
      (''critic_local_params'', state_dict (params ag) (critic_local ag)),
      (''critic_target_params'', state_dict (params ag) (critic_target ag)),
      (''critic_optim_params'', Optimizer_state (critic_optimizer ag))]"

text \<open>\<^verbatim>\<open>save\<close>: the error raised, if any, the files and the agent after the call.\<close>

definition save ::
  "('a, 'o) files \<Rightarrow> ('a, 'o) DDGP \<Rightarrow> string \<Rightarrow> int \<Rightarrow>
   error option \<times> ('a, 'o) files \<times> ('a, 'o) DDGP" where
  "save fs ag save_path iteration =
     (case torch_save fs (save_dict ag)
             (os_path_join save_path (name ag @ ''i_episode-'' @ str_int iteration @ ''.pt'')) of
        (r, fs') \<Rightarrow> (r, fs', ag))"

section \<open>Sequences of operations\<close>

text \<open>
  The world an agent runs in: the global generator, the files, the agent. A caller may
  invoke the operations in any order; \<open>step\<close> gives the world after one call, whether the
  call returned or raised (the mutations made before the exception stay). The namespace
  of the module and the computations of torch are the same for every call.
\<close>

record ('a, 'o) world =
  w_rng :: rng
  w_files :: "('a, 'o) files"
  w_agent :: "('a, 'o) DDGP"

datatype 'a operation =
    Memorize "'a list" "'a list" 'a "'a list" bool
  | Trigger_learn
  | Update_counter
  | Act "'a float list" bool
  | Reset
  | Learn
  | Soft_update model model 'a
  | Save string int

fun step ::
  "'a namespace \<Rightarrow> ('a, 'o) torch \<Rightarrow> ('a::linordered_field, 'o) world \<Rightarrow> 'a operation \<Rightarrow>
   ('a, 'o) world" where
  "step ns lib w (Memorize s a r s' d) = w\<lparr>w_agent := memorize (w_agent w) s a r s' d\<rparr>"
| "step ns lib w Trigger_learn =
     (case trigger_learn ns lib (w_rng w) (w_agent w) of
        (r, g, ag) \<Rightarrow> w\<lparr>w_rng := g, w_agent := ag\<rparr>)"
| "step ns lib w Update_counter =
     (case update_counter (w_agent w) of (r, ag) \<Rightarrow> w\<lparr>w_agent := ag\<rparr>)"
| "step ns lib w (Act s add_noise) =
     (case act lib (w_rng w) (w_agent w) s add_noise of
        (r, g, ag) \<Rightarrow> w\<lparr>w_rng := g, w_agent := ag\<rparr>)"
| "step ns lib w Reset = w\<lparr>w_agent := reset (w_agent w)\<rparr>"
| "step ns lib w Learn =
     (case learn ns lib (w_rng w) (w_agent w) of
        (r, g, ag) \<Rightarrow> w\<lparr>w_rng := g, w_agent := ag\<rparr>)"
| "step ns lib w (Soft_update local_model target_model tau0) =
     (case soft_update local_model target_model tau0 (params (w_agent w)) of
        (r, h) \<Rightarrow> w\<lparr>w_agent := (w_agent w)\<lparr>params := h\<rparr>\<rparr>)"
| "step ns lib w (Save save_path iteration) =
     (case save (w_files w) (w_agent w) save_path iteration of
        (r, fs, ag) \<Rightarrow> w\<lparr>w_files := fs, w_agent := ag\<rparr>)"

fun run ::
  "'a namespace \<Rightarrow> ('a, 'o) torch \<Rightarrow> ('a::linordered_field, 'o) world \<Rightarrow> 'a operation list \<Rightarrow>
   ('a, 'o) world" where
  "run ns lib w [] = w"
| "run ns lib w (x # xs) = run ns lib (step ns lib w x) xs"

section \<open>A concrete agent\<close>

text \<open>
  Test inputs: one parameter tensor per network, an actor whose forward pass returns a
  fixed action, optimizers without state whose steps set the one parameter of the local
  critic and of the local actor, and a second actor whose forward pass returns its input.
\<close>

definition example_networks :: "(real, unit) networks" where
  "example_networks =
     \<lparr>n_params = (\<lambda>a. [of_nat a, 1]),
      n_actor_local = [0], n_actor_target = [1], n_actor_optimizer = (),
      n_critic_local = [2], n_critic_target = [3], n_critic_optimizer = ()\<rparr>"

definition example_torch :: "(real, unit) torch" where
  "example_torch =
     \<lparr>actor_forward = (\<lambda>h m s. Inr [Num 5, Num (- 3), Num 0.5]),
      q_targets_next = (\<lambda>ag s. Inr [[0]]),
      critic_step = (\<lambda>ag s a r gm q d. Inr ((params ag)(2 := [4, 1]), ())),
      actor_step = (\<lambda>ag s. Inr ((params ag)(0 := [10, 1]), ()))\<rparr>"

text \<open>A generator whose every output is \<open>k\<close>.\<close>

definition constant_rng :: "nat \<Rightarrow> rng" where
  "constant_rng k = (\<lambda>i. k)"

definition identity_torch :: "(real, unit) torch" where
  "identity_torch = example_torch\<lparr>actor_forward := (\<lambda>h m s. Inr s)\<rparr>"

text \<open>
  The agent that \<^verbatim>\<open>DDGP('agent0', 1, 3, 0, buffer_size=10, batch_size=1)\<close> builds
  from these networks, the other arguments at their defaults.
\<close>

definition example_agent :: "(real, unit) DDGP" where
  "example_agent =
     \<lparr>name = ''agent0'', state_size = 1, action_size = 3, buffer_size = 10, batch_size = 1,
      min_req_exp = 200, consec_learn_iter = 2, learn_every = 4,
      lr_actor = 0.0001, lr_critic = 0.001, weight_decay = 0.0001, tau = 0.001, gamma = 0.99,
      params = n_params example_networks,
      actor_local = [0], actor_target = [1], actor_optimizer = (),
      critic_local = [2], critic_target = [3], critic_optimizer = (),
      noise = \<lparr>mu = [0, 0, 0], theta = 0.15, sigma = 0.2, state = [0, 0, 0]\<rparr>,
      memory = \<lparr>rb_memory = \<lparr>items = [], maxlen = 10\<rparr>, rb_batch_size = None\<rparr>,
      step_mem = 0, train = False, exploration = 1\<rparr>"

text \<open>
  The same agent after a caller has memorized one experience and bound the attribute
  \<^verbatim>\<open>batch_size\<close> of its replay buffer to 1, and the namespace of the module after the
  caller has bound \<^verbatim>\<open>agent = 0\<close>, \<^verbatim>\<open>BATCH_SIZE = 1\<close> and \<^verbatim>\<open>GAMMA = 0.99\<close> in it.
\<close>

definition example_learner :: "(real, unit) DDGP" where
  "example_learner =
     example_agent
       \<lparr>memory :=
          \<lparr>rb_memory =
             \<lparr>items = [\<lparr>e_state = [1], e_action = [0, 0, 0], e_reward = 1, e_next_state = [2],
                        e_done = False\<rparr>],
              maxlen = 10\<rparr>,
           rb_batch_size = Some 1\<rparr>\<rparr>"

definition example_globals :: "real namespace" where
  "example_globals = \<lparr>ns_agent = Some 0, ns_BATCH_SIZE = Some 1, ns_GAMMA = Some 0.99\<rparr>"

text \<open>
  Two file systems: one in which the files of the directory \<^verbatim>\<open>ckpt\<close> can be written, and
  one in which no file can be (no directory exists). Neither holds a file.
\<close>

definition example_files :: "(real, unit) files" where
  "example_files = \<lparr>writable = (\<lambda>p. take 5 p = ''ckpt/''), contents = Map.empty\<rparr>"

definition empty_files :: "(real, unit) files" where
  "empty_files = \<lparr>writable = (\<lambda>p. False), contents = Map.empty\<rparr>"

section \<open>Properties of the replay buffer\<close>

lemma ReplayBuffer_add_memory:
  "rb_memory (ReplayBuffer_add rb (e_state e) (e_action e) (e_reward e) (e_next_state e) (e_done e))
     = deque_append (rb_memory rb) e"
  by (cases e) (simp add: ReplayBuffer_add_def)

lemma deque_append_maxlen: "maxlen (deque_append d e) = maxlen d"
  by (simp add: deque_append_def Let_def)

lemma deque_append_bounded:
  "int (length (items d)) \<le> maxlen d \<Longrightarrow>
   int (length (items (deque_append d e))) \<le> maxlen (deque_append d e)"
  by (auto simp: deque_append_def Let_def)

lemma ReplayBuffer_adds_invariant:
  "int (length (items (rb_memory rb))) \<le> maxlen (rb_memory rb) \<Longrightarrow>
   maxlen (rb_memory (ReplayBuffer_adds rb es)) = maxlen (rb_memory rb) \<and>
   int (length (items (rb_memory (ReplayBuffer_adds rb es)))) \<le> maxlen (rb_memory rb)"
proof (induction es arbitrary: rb)
  case Nil
  then show ?case by simp
next
  case (Cons e es)
  let ?rb = "ReplayBuffer_add rb (e_state e) (e_action e) (e_reward e) (e_next_state e) (e_done e)"
  have m: "maxlen (rb_memory ?rb) = maxlen (rb_memory rb)"
    by (simp add: ReplayBuffer_add_memory deque_append_maxlen)
  have "int (length (items (rb_memory ?rb))) \<le> maxlen (rb_memory ?rb)"
    using Cons.prems by (simp add: ReplayBuffer_add_memory deque_append_bounded)
  from Cons.IH [OF this] show ?case by (simp add: m)
qed

lemma ReplayBuffer_adds_batch_size:
  "rb_batch_size (ReplayBuffer_adds rb es) = rb_batch_size rb"
  by (induction es arbitrary: rb) (simp_all add: ReplayBuffer_add_def)

text \<open>
  C1. The replay buffer is a rotating bounded queue. For a buffer constructed with
  capacity \<open>capacity\<close> (the argument \<^verbatim>\<open>buffer_size\<close>) and after any sequence \<open>es\<close> of
  adds: the length is at most \<open>capacity\<close>; an add below capacity appends the experience and
  increases the length by one; an add at capacity leaves the length at \<open>capacity\<close>, and the
  contents are the old contents followed by the new experience with the oldest (leftmost)
  one dropped: for a positive capacity the old contents are their oldest experience
  followed by all but the last of the new contents.
\<close>

theorem ReplayBuffer_bounded_fifo:
  assumes init: "ReplayBuffer_init capacity seed = Inr rb0"
  shows "int (ReplayBuffer_len (ReplayBuffer_adds rb0 es)) \<le> capacity \<and>
    (int (ReplayBuffer_len (ReplayBuffer_adds rb0 es)) < capacity \<longrightarrow>
       ReplayBuffer_len (ReplayBuffer_add (ReplayBuffer_adds rb0 es) s a r s' d)
         = ReplayBuffer_len (ReplayBuffer_adds rb0 es) + 1 \<and>
       items (rb_memory (ReplayBuffer_add (ReplayBuffer_adds rb0 es) s a r s' d))
         = items (rb_memory (ReplayBuffer_adds rb0 es))
           @ [\<lparr>e_state = s, e_action = a, e_reward = r, e_next_state = s', e_done = d\<rparr>]) \<and>
    (int (ReplayBuffer_len (ReplayBuffer_adds rb0 es)) = capacity \<longrightarrow>
       int (ReplayBuffer_len (ReplayBuffer_add (ReplayBuffer_adds rb0 es) s a r s' d)) = capacity \<and>
       items (rb_memory (ReplayBuffer_add (ReplayBuffer_adds rb0 es) s a r s' d))
         = tl (items (rb_memory (ReplayBuffer_adds rb0 es))
               @ [\<lparr>e_state = s, e_action = a, e_reward = r, e_next_state = s', e_done = d\<rparr>]) \<and>
       (0 < capacity \<longrightarrow>
          items (rb_memory (ReplayBuffer_adds rb0 es))
            = hd (items (rb_memory (ReplayBuffer_adds rb0 es)))
              # butlast (items (rb_memory (ReplayBuffer_add (ReplayBuffer_adds rb0 es) s a r s' d)))))"
proof -
  let ?rb = "ReplayBuffer_adds rb0 es"
  from init have rb0: "items (rb_memory rb0) = []" "maxlen (rb_memory rb0) = capacity"
    and nonneg: "0 \<le> capacity"
    by (auto simp: ReplayBuffer_init_def deque_init_def split: if_splits)
  then have "int (length (items (rb_memory rb0))) \<le> maxlen (rb_memory rb0)"
    by simp
  from ReplayBuffer_adds_invariant [OF this, of es]
  have ml: "maxlen (rb_memory ?rb) = capacity"
    and le: "int (length (items (rb_memory ?rb))) \<le> capacity"
    by (simp_all add: rb0)
  have below: "int (length (items (rb_memory ?rb))) < capacity \<Longrightarrow>
      items (rb_memory (ReplayBuffer_add ?rb s a r s' d))
        = items (rb_memory ?rb)
          @ [\<lparr>e_state = s, e_action = a, e_reward = r, e_next_state = s', e_done = d\<rparr>]"
    by (simp add: ReplayBuffer_add_def deque_append_def Let_def ml)
  have full: "int (length (items (rb_memory ?rb))) = capacity \<Longrightarrow>
      items (rb_memory (ReplayBuffer_add ?rb s a r s' d))
        = tl (items (rb_memory ?rb)
          @ [\<lparr>e_state = s, e_action = a, e_reward = r, e_next_state = s', e_done = d\<rparr>])"
    by (simp add: ReplayBuffer_add_def deque_append_def Let_def ml)
  have rot: "int (length (items (rb_memory ?rb))) = capacity \<Longrightarrow> 0 < capacity \<Longrightarrow>
      items (rb_memory ?rb)
        = hd (items (rb_memory ?rb)) # butlast (items (rb_memory (ReplayBuffer_add ?rb s a r s' d)))"
  proof -
    assume a: "int (length (items (rb_memory ?rb))) = capacity" and p: "0 < capacity"
    then have ne: "items (rb_memory ?rb) \<noteq> []" by auto
    then show ?thesis
      by (simp add: full [OF a] butlast_append)
  qed
  show ?thesis
    using le below full rot by (auto simp: ReplayBuffer_len_def)
qed

theorem ReplayBuffer_bounded_fifo_witness:
  "ReplayBuffer_init 1 0
     = Inr (\<lparr>rb_memory = \<lparr>items = [], maxlen = 1\<rparr>, rb_batch_size = None\<rparr> :: int ReplayBuffer) \<and>
   items (rb_memory (ReplayBuffer_add
     (ReplayBuffer_adds \<lparr>rb_memory = \<lparr>items = [], maxlen = 1\<rparr>, rb_batch_size = None\<rparr>
        [\<lparr>e_state = [1::int], e_action = [2], e_reward = 3, e_next_state = [4], e_done = False\<rparr>])
     [5] [6] 7 [8] True))
   = [\<lparr>e_state = [5], e_action = [6], e_reward = 7, e_next_state = [8], e_done = True\<rparr>]"
proof -
  have h: "ReplayBuffer_init 1 0
      = Inr (\<lparr>rb_memory = \<lparr>items = [], maxlen = 1\<rparr>, rb_batch_size = None\<rparr> :: int ReplayBuffer)"
    by (simp add: ReplayBuffer_init_def deque_init_def)
  show ?thesis
    using h ReplayBuffer_bounded_fifo [OF h,
      of "[\<lparr>e_state = [1::int], e_action = [2], e_reward = 3, e_next_state = [4], e_done = False\<rparr>]"
         "[5]" "[6]" 7 "[8]" True]
    by (simp add: ReplayBuffer_add_def deque_append_def ReplayBuffer_len_def)
qed

lemma ReplayBuffer_sample_unbound:
  "rb_batch_size rb = None \<Longrightarrow> ReplayBuffer_sample g rb = (Inl AttributeError, g)"
  by (simp add: ReplayBuffer_sample_def)

lemma ReplayBuffer_sample_errors:
  "fst (ReplayBuffer_sample g rb) = Inl err \<Longrightarrow> err = AttributeError \<or> err = ValueError"
  by (auto simp: ReplayBuffer_sample_def random_sample_def stack_batch_def np_vstack_def Let_def
      split: option.splits prod.splits sum.splits if_splits)

text \<open>
  C4. The claim is that \<^verbatim>\<open>sample\<close> returns a batch of stored experiences whenever the
  buffer holds enough of them. The code does not: \<^verbatim>\<open>sample\<close> reads \<^verbatim>\<open>self.batch_size\<close>,
  which no \<^verbatim>\<open>ReplayBuffer\<close> has (the docstring of \<^verbatim>\<open>__init__\<close> lists a parameter
  \<^verbatim>\<open>batch_size\<close> that the signature lacks). On a buffer of capacity 3, after any sequence of
  adds, the call raises \<open>AttributeError\<close> and draws nothing from the generator.
\<close>

theorem ReplayBuffer_sample_raises_AttributeError:
  "ReplayBuffer_init 3 seed
     = Inr (\<lparr>rb_memory = \<lparr>items = [], maxlen = 3\<rparr>, rb_batch_size = None\<rparr> :: 'a ReplayBuffer) \<and>
   ReplayBuffer_sample g
     (ReplayBuffer_adds
        (\<lparr>rb_memory = \<lparr>items = [], maxlen = 3\<rparr>, rb_batch_size = None\<rparr> :: ('a::{zero,one}) ReplayBuffer) es)
     = (Inl AttributeError, g)"
  by (simp add: ReplayBuffer_init_def deque_init_def ReplayBuffer_sample_unbound
      ReplayBuffer_adds_batch_size)

section \<open>Properties of the soft update\<close>

lemma torch_add_same:
  "length a = length b \<Longrightarrow> torch_add a b = Inr (map2 (+) a b)"
  by (simp add: torch_add_def broadcast_def)

lemma torch_copy_same: "length v = length t \<Longrightarrow> torch_copy t v = Inr v"
  by (simp add: torch_copy_def)

lemma soft_update_loop_spec:
  "distinct (map fst ps) \<Longrightarrow> set (map fst ps) \<inter> set (map snd ps) = {} \<Longrightarrow>
   (\<forall>(t, l) \<in> set ps. length (h l) = length (h t)) \<Longrightarrow>
   soft_update_loop ps c h =
     (None, \<lambda>a. case map_of ps a of None \<Rightarrow> h a
                  | Some l \<Rightarrow> map2 (+) (scale c (h l)) (scale (1 - c) (h a)))"
proof (induction ps arbitrary: h)
  case Nil
  then show ?case by simp
next
  case (Cons p ps)
  obtain t l where p: "p = (t, l)" by (cases p)
  let ?v = "map2 (+) (scale c (h l)) (scale (1 - c) (h t))"
  let ?h = "h(t := ?v)"
  from Cons.prems p have len: "length (h l) = length (h t)" by simp
  have tl: "t \<noteq> l" using Cons.prems(2) p by auto
  have t_fst: "t \<notin> fst ` set ps" using Cons.prems(1) p by simp
  have t_snd: "t \<notin> snd ` set ps" using Cons.prems(2) p by auto
  have stepeq: "soft_update_loop (p # ps) c h = soft_update_loop ps c ?h"
    by (simp add: p torch_add_same torch_copy_same len scale_def)
  have d: "distinct (map fst ps)" using Cons.prems(1) by simp
  have i: "set (map fst ps) \<inter> set (map snd ps) = {}" using Cons.prems(2) by auto
  have s: "\<forall>(t', l') \<in> set ps. length (?h l') = length (?h t')"
  proof (clarify)
    fix t' l' assume m: "(t', l') \<in> set ps"
    then have "t' \<noteq> t" "l' \<noteq> t" using t_fst t_snd by force+
    moreover have "length (h l') = length (h t')" using Cons.prems(3) m by auto
    ultimately show "length (?h l') = length (?h t')" by simp
  qed
  have "soft_update_loop ps c ?h =
     (None, \<lambda>a. case map_of ps a of None \<Rightarrow> ?h a
                  | Some l \<Rightarrow> map2 (+) (scale c (?h l)) (scale (1 - c) (?h a)))"
    by (rule Cons.IH [OF d i s])
  also have "(\<lambda>a. case map_of ps a of None \<Rightarrow> ?h a
                  | Some l \<Rightarrow> map2 (+) (scale c (?h l)) (scale (1 - c) (?h a)))
     = (\<lambda>a. case map_of (p # ps) a of None \<Rightarrow> h a
                  | Some l \<Rightarrow> map2 (+) (scale c (h l)) (scale (1 - c) (h a)))"
  proof (rule ext)
    fix a
    show "(case map_of ps a of None \<Rightarrow> ?h a
                  | Some l \<Rightarrow> map2 (+) (scale c (?h l)) (scale (1 - c) (?h a)))
      = (case map_of (p # ps) a of None \<Rightarrow> h a
                  | Some l \<Rightarrow> map2 (+) (scale c (h l)) (scale (1 - c) (h a)))"
    proof (cases "a = t")
      case True
      then have "map_of ps a = None" using t_fst by (simp add: map_of_eq_None_iff)
      then show ?thesis using True p by simp
    next
      case False
      show ?thesis
      proof (cases "map_of ps a")
        case None
        then show ?thesis using False p by simp
      next
        case (Some l')
        then have "(a, l') \<in> set ps" by (rule map_of_SomeD)
        then have "l' \<noteq> t" using t_snd by force
        then show ?thesis using False p Some by simp
      qed
    qed
  qed
  finally show ?case by (simp only: stepeq)
qed

lemma soft_update_entries:
  assumes len: "length local_model = length target_model"
    and shape: "\<forall>i<length target_model. length (h (local_model ! i)) = length (h (target_model ! i))"
    and dist: "distinct target_model"
    and disj: "set local_model \<inter> set target_model = {}"
  shows "\<exists>h'. soft_update local_model target_model c h = (None, h') \<and>
    (\<forall>i<length target_model.
       length (h' (target_model ! i)) = length (h (target_model ! i)) \<and>
       (\<forall>j<length (h (target_model ! i)).
          h' (target_model ! i) ! j
            = c * h (local_model ! i) ! j + (1 - c) * h (target_model ! i) ! j)) \<and>
    (\<forall>i<length local_model. h' (local_model ! i) = h (local_model ! i)) \<and>
    (\<forall>a. a \<notin> set target_model \<longrightarrow> h' a = h a)"
proof -
  let ?ps = "zip target_model local_model"
  let ?h' = "\<lambda>a. case map_of ?ps a of None \<Rightarrow> h a
                  | Some l \<Rightarrow> map2 (+) (scale c (h l)) (scale (1 - c) (h a))"
  have f: "map fst ?ps = target_model" and s: "map snd ?ps = local_model"
    using len by simp_all
  have sh: "\<forall>(t, l) \<in> set ?ps. length (h l) = length (h t)"
    using shape len by (auto simp: set_zip)
  have eq: "soft_update local_model target_model c h = (None, ?h')"
    unfolding soft_update_def
    by (rule soft_update_loop_spec) (use dist disj sh in \<open>auto simp: f s\<close>)
  have tgt: "map_of ?ps (target_model ! i) = Some (local_model ! i)" if "i < length target_model" for i
    using that len dist by (simp add: map_of_zip_nth)
  have out: "map_of ?ps a = None" if "a \<notin> set target_model" for a
    using that len by (simp add: map_of_zip_is_None)
  have loc: "map_of ?ps (local_model ! i) = None" if "i < length local_model" for i
    using that disj by (intro out) (metis disjoint_iff nth_mem)
  show ?thesis
    apply (rule exI [of _ ?h'])
    using shape by (auto simp: eq tgt out loc scale_def)
qed

text \<open>
  C3. The soft update is an exponential moving average. For two models with as many
  parameters each, pairwise of equal shape, where the parameters of the target model are
  distinct objects (as \<^verbatim>\<open>parameters()\<close> yields them) and none of them is a parameter of
  the local model: the call returns, every entry of every target parameter becomes
  \<open>c * l + (1 - c) * t\<close> for the entries \<open>l\<close> and \<open>t\<close> of the local and the target parameter
  before the call, the local parameters are unchanged, and so is every tensor that is not a
  target parameter. No law of arithmetic is used: the equation holds for the operations
  \<open>*\<close>, \<open>+\<close> and \<open>-\<close> of any number type.
\<close>

theorem soft_update_moving_average:
  assumes len: "length local_model = length target_model"
    and shape: "\<forall>i<length target_model. length (h (local_model ! i)) = length (h (target_model ! i))"
    and dist: "distinct target_model"
    and disj: "set local_model \<inter> set target_model = {}"
  shows "\<exists>h'. soft_update local_model target_model c h = (None, h') \<and>
    (\<forall>i<length target_model.
       length (h' (target_model ! i)) = length (h (target_model ! i)) \<and>
       (\<forall>j<length (h (target_model ! i)).
          h' (target_model ! i) ! j
            = c * h (local_model ! i) ! j + (1 - c) * h (target_model ! i) ! j)) \<and>
    (\<forall>i<length local_model. h' (local_model ! i) = h (local_model ! i)) \<and>
    (\<forall>a. a \<notin> set target_model \<longrightarrow> h' a = h a)"
  using len shape dist disj by (rule soft_update_entries)

theorem soft_update_moving_average_witness:
  "\<exists>h'. soft_update [0] [1] (2::int) (\<lambda>a. if a = 0 then [10] else [20]) = (None, h') \<and>
        length (h' 1) = 1 \<and> h' 1 ! 0 = 0 \<and> h' 0 = [10]"
proof -
  let ?h = "\<lambda>a::nat. if a = 0 then [10::int] else [20]"
  have len: "length [0::nat] = length [1::nat]" by simp
  have shape: "\<forall>i<length [1::nat]. length (?h ([0] ! i)) = length (?h ([1] ! i))" by simp
  have dist: "distinct [1::nat]" by simp
  have disj: "set [0::nat] \<inter> set [1] = {}" by simp
  from soft_update_moving_average [OF len shape dist disj, of 2]
  show ?thesis by auto
qed

section \<open>Properties of the noise\<close>

lemma random_random_range:
  "0 \<le> (fst (random_random g) :: 'a::linordered_field) \<and> fst (random_random g) < (1 :: 'a)"
proof -
  have "g 0 mod 2 ^ 53 < 2 ^ 53" by simp
  then have "(of_nat (g 0 mod 2 ^ 53) :: 'a) < of_nat (2 ^ 53)"
    by (simp only: of_nat_less_iff)
  then show ?thesis by (simp add: random_random_def)
qed

lemma random_draws_range:
  "list_all (\<lambda>w. 0 \<le> w \<and> w < (1 :: 'a::linordered_field)) (fst (random_draws n g))"
proof (induction n arbitrary: g)
  case 0
  then show ?case by simp
next
  case (Suc n)
  show ?case
    using random_random_range [of g, where 'a = 'a] Suc.IH [of "snd (random_random g :: 'a \<times> rng)"]
    by (simp add: split_beta Let_def)
qed

lemma random_draws_length: "length (fst (random_draws n g)) = n"
  by (induction n arbitrary: g) (simp_all add: split_beta Let_def)

lemma sum_of_nat_below:
  "2 * (\<Sum>k<n. (of_nat k :: 'a::linordered_field)) = of_nat n * (of_nat n - 1)"
  by (induction n) (simp_all add: algebra_simps)

lemma random_random_mean:
  assumes "n = (2::nat) ^ 53"
  shows "(\<Sum>k<n. (fst (random_random (\<lambda>i. k)) :: 'a::linordered_field)) / of_nat n
    = (of_nat n - 1) / (2 * of_nat n)"
proof -
  have "(\<Sum>k<n. (fst (random_random (\<lambda>i. k)) :: 'a)) = (\<Sum>k<n. of_nat k / of_nat n)"
    by (rule sum.cong) (simp_all add: random_random_def assms)
  also have "\<dots> = (\<Sum>k<n. of_nat k) / of_nat n"
    by (simp add: sum_divide_distrib)
  also have "\<dots> = (of_nat n * (of_nat n - 1) / 2) / of_nat n"
  proof -
    have "(\<Sum>k<n. (of_nat k :: 'a)) * 2 = of_nat n * (of_nat n - 1)"
      using sum_of_nat_below [of n, where 'a = 'a] by (simp add: mult.commute)
    then have "(\<Sum>k<n. (of_nat k :: 'a)) = of_nat n * (of_nat n - 1) / 2"
      by (simp add: eq_divide_eq)
    then show ?thesis by simp
  qed
  finally have "(\<Sum>k<n. (fst (random_random (\<lambda>i. k)) :: 'a))
      = (of_nat n * (of_nat n - 1) / 2) / of_nat n" .
  moreover have "(of_nat n :: 'a) \<noteq> 0" using assms by simp
  ultimately have "(\<Sum>k<n. (fst (random_random (\<lambda>i. k)) :: 'a)) = (of_nat n - 1) / 2"
    by simp
  then show ?thesis by (simp only: divide_divide_eq_left)
qed

lemma broadcast_same:
  "length a = length b \<Longrightarrow> broadcast err f a b = Inr (map2 f a b)"
  by (simp add: broadcast_def)

text \<open>
  One call of \<^verbatim>\<open>sample\<close> on a noise object whose state has the length of \<open>mu\<close> (which
  \<^verbatim>\<open>reset\<close> and \<^verbatim>\<open>sample\<close> maintain): the state moves from \<open>x\<close> to
  \<open>x + (theta * (mu - x) + sigma * w)\<close> for the vector \<open>w\<close> of the draws, and is returned.
\<close>

lemma OUNoise_sample_update:
  fixes n :: "('a::field) OUNoise"
  assumes "length (state n) = length (mu n)"
  shows "OUNoise_sample g n =
    (Inr (map (\<lambda>i. state n ! i + (theta n * (mu n ! i - state n ! i)
                 + sigma n * fst (random_draws (length (state n)) g) ! i)) [0..<length (state n)]),
     snd (random_draws (length (state n)) g :: ('a::field) list \<times> rng),
     n\<lparr>state := map (\<lambda>i. state n ! i + (theta n * (mu n ! i - state n ! i)
                 + sigma n * fst (random_draws (length (state n)) g) ! i)) [0..<length (state n)]\<rparr>)"
proof -
  define x where "x = state n"
  define m where "m = mu n"
  define ws :: "'a list" where "ws = fst (random_draws (length x) g)"
  have lm: "length m = length x" using assms by (simp add: x_def m_def)
  have lw: "length ws = length x" by (simp add: ws_def random_draws_length)
  have 1: "np_sub m x = Inr (map2 (-) m x)"
    unfolding np_sub_def by (rule broadcast_same) (rule lm)
  have 2: "np_add (scale (theta n) (map2 (-) m x)) (scale (sigma n) ws)
     = Inr (map2 (+) (scale (theta n) (map2 (-) m x)) (scale (sigma n) ws))"
    unfolding np_add_def by (rule broadcast_same) (simp add: scale_def lm lw)
  have 3: "np_add x (map2 (+) (scale (theta n) (map2 (-) m x)) (scale (sigma n) ws))
     = Inr (map2 (+) x (map2 (+) (scale (theta n) (map2 (-) m x)) (scale (sigma n) ws)))"
    unfolding np_add_def by (rule broadcast_same) (simp add: scale_def lm lw)
  have 4: "map2 (+) x (map2 (+) (scale (theta n) (map2 (-) m x)) (scale (sigma n) ws))
     = map (\<lambda>i. x ! i + (theta n * (m ! i - x ! i) + sigma n * ws ! i)) [0..<length x]"
    by (rule nth_equalityI) (simp_all add: scale_def lm lw)
  have "OUNoise_sample g n =
     (Inr (map (\<lambda>i. x ! i + (theta n * (m ! i - x ! i) + sigma n * ws ! i)) [0..<length x]),
      snd (random_draws (length x) g :: 'a list \<times> rng),
      n\<lparr>state := map (\<lambda>i. x ! i + (theta n * (m ! i - x ! i) + sigma n * ws ! i)) [0..<length x]\<rparr>)"
    unfolding OUNoise_sample_def Let_def x_def [symmetric] m_def [symmetric]
    by (simp add: 1 split_beta ws_def [symmetric] 2 3 4)
  then show ?thesis by (simp only: x_def m_def ws_def)
qed

text \<open>
  C5. The claim is that the increments \<open>w\<close> of the noise are zero-mean, as those of
  an Ornstein-Uhlenbeck process are (the docstring of the class). The update rule is the
  claimed one, but the code draws \<open>w\<close> with \<^verbatim>\<open>random.random()\<close>: every entry lies in the
  half-open interval from 0 to 1; the first sample of \<^verbatim>\<open>OUNoise(1, seed)\<close> is
  \<open>0.2 * w\<close> and so never negative; and the mean of a draw over the \<open>2^53\<close> equally likely
  outputs of the generator is \<open>(2^53 - 1) / 2^54\<close>, just below one half.
\<close>

theorem OUNoise_sample_uniform_draws:
  "list_all (\<lambda>w. 0 \<le> w \<and> w < (1::real)) (fst (random_draws n g)) \<and>
   (case OUNoise_init 1 seed 0 0.15 0.2 of
      Inl err \<Rightarrow> False
    | Inr n0 \<Rightarrow> fst (OUNoise_sample g n0) = Inr [0.2 * (real (g 0 mod 2 ^ 53) / 2 ^ 53)]) \<and>
   (\<Sum>k<2 ^ 53. fst (random_random (\<lambda>i. k))) / 2 ^ 53 = ((2 ^ 53 - 1) / 2 ^ 54 :: real)"
proof (intro conjI)
  show "list_all (\<lambda>w. 0 \<le> w \<and> w < (1::real)) (fst (random_draws n g))"
    by (rule random_draws_range)
  show "case OUNoise_init 1 seed 0 0.15 0.2 of
      Inl err \<Rightarrow> False
    | Inr n0 \<Rightarrow> fst (OUNoise_sample g n0) = Inr [0.2 * (real (g 0 mod 2 ^ 53) / 2 ^ 53)]"
    by (simp add: OUNoise_init_def OUNoise_reset_def scale_def OUNoise_sample_def np_sub_def
        np_add_def broadcast_def random_random_def Let_def)
  show "(\<Sum>k<2 ^ 53. fst (random_random (\<lambda>i. k))) / 2 ^ 53 = ((2 ^ 53 - 1) / 2 ^ 54 :: real)"
    using random_random_mean [of "2 ^ 53", where 'a = real] by simp
qed

section \<open>Properties of learning\<close>

lemma learn_optimize_frame:
  "learn_optimize ns lib g ag = (r, g', ag3) \<Longrightarrow>
   critic_local ag3 = critic_local ag \<and> critic_target ag3 = critic_target ag \<and>
   actor_local ag3 = actor_local ag \<and> actor_target ag3 = actor_target ag \<and>
   tau ag3 = tau ag \<and> exploration ag3 = exploration ag * 0.999"
  by (auto simp: learn_optimize_def Let_def split: prod.splits sum.splits option.splits)

lemma learn_exploration:
  "exploration (snd (snd (learn ns lib g ag))) = exploration ag * 0.999"
proof -
  obtain r g' ag3 where lo: "learn_optimize ns lib g ag = (r, g', ag3)"
    by (cases "learn_optimize ns lib g ag") auto
  from learn_optimize_frame [OF lo] have "exploration ag3 = exploration ag * 0.999" by simp
  then show ?thesis
    by (simp add: learn_def lo split: option.splits prod.splits)
qed

lemma learn_optimize_unbound:
  "rb_batch_size (memory ag) = None \<Longrightarrow>
   learn_optimize ns lib g ag = (Some AttributeError, g, ag\<lparr>exploration := exploration ag * 0.999\<rparr>)"
  by (simp add: learn_optimize_def Let_def ReplayBuffer_sample_unbound)

lemma learn_unbound:
  "rb_batch_size (memory ag) = None \<Longrightarrow>
   learn ns lib g ag = (Some AttributeError, g, ag\<lparr>exploration := exploration ag * 0.999\<rparr>)"
  by (simp add: learn_def learn_optimize_unbound)

text \<open>
  As the module stands, with none of the three global names bound, no call of \<^verbatim>\<open>learn\<close>
  returns.
\<close>

lemma learn_module_globals_raises: "fst (learn module_globals lib g ag) \<noteq> None"
proof -
  have "fst (learn_optimize module_globals lib g ag) \<noteq> None"
    by (simp add: learn_optimize_def module_globals_def Let_def split: prod.splits sum.splits)
  then show ?thesis
    by (auto simp: learn_def split: prod.splits option.splits)
qed

text \<open>
  C6. Every call of \<^verbatim>\<open>learn\<close> that returns ends with the two soft updates. If the call
  returns, then lines 136 to 171 have returned with an agent \<open>ag3\<close>, whose parameters are
  those after the optimizer steps of this call; \<^verbatim>\<open>soft_update\<close> has been applied with
  \<^verbatim>\<open>self.tau\<close> to the critic pair and then to the actor pair, and nothing else of the agent
  has changed. Where the four networks are separate (the parameters of the two targets are
  distinct objects and none of them is a local parameter) and each local network has the
  shapes of its target, every entry of every parameter of \<^verbatim>\<open>critic_target\<close> and of
  \<^verbatim>\<open>actor_target\<close> is \<open>tau * l + (1 - tau) * t\<close> for the entries \<open>l\<close> of the local parameter
  after the optimizer steps and \<open>t\<close> of the target parameter before the soft update, and
  every other tensor is as the optimizer steps left it.
\<close>

theorem learn_soft_updates_targets:
  assumes ret: "learn ns lib g ag = (None, g', ag')"
  shows "\<exists>ag3 h4.
    learn_optimize ns lib g ag = (None, g', ag3) \<and>
    soft_update (critic_local ag) (critic_target ag) (tau ag) (params ag3) = (None, h4) \<and>
    soft_update (actor_local ag) (actor_target ag) (tau ag) h4 = (None, params ag') \<and>
    ag' = ag3\<lparr>params := params ag'\<rparr> \<and>
    (distinct (critic_target ag @ actor_target ag) \<and>
     (set (critic_local ag) \<union> set (actor_local ag))
       \<inter> (set (critic_target ag) \<union> set (actor_target ag)) = {} \<and>
     length (critic_local ag) = length (critic_target ag) \<and>
     length (actor_local ag) = length (actor_target ag) \<and>
     (\<forall>i<length (critic_target ag).
        length (params ag3 (critic_local ag ! i)) = length (params ag3 (critic_target ag ! i))) \<and>
     (\<forall>i<length (actor_target ag).
        length (params ag3 (actor_local ag ! i)) = length (params ag3 (actor_target ag ! i)))
     \<longrightarrow>
     (\<forall>i<length (critic_target ag).
        length (params ag' (critic_target ag ! i)) = length (params ag3 (critic_target ag ! i)) \<and>
        (\<forall>j<length (params ag3 (critic_target ag ! i)).
           params ag' (critic_target ag ! i) ! j
             = tau ag * params ag3 (critic_local ag ! i) ! j
               + (1 - tau ag) * params ag3 (critic_target ag ! i) ! j)) \<and>
     (\<forall>i<length (actor_target ag).
        length (params ag' (actor_target ag ! i)) = length (params ag3 (actor_target ag ! i)) \<and>
        (\<forall>j<length (params ag3 (actor_target ag ! i)).
           params ag' (actor_target ag ! i) ! j
             = tau ag * params ag3 (actor_local ag ! i) ! j
               + (1 - tau ag) * params ag3 (actor_target ag ! i) ! j)) \<and>
     (\<forall>a. a \<notin> set (critic_target ag) \<union> set (actor_target ag) \<longrightarrow> params ag' a = params ag3 a))"
proof -
  obtain r g1 ag3 where lo: "learn_optimize ns lib g ag = (r, g1, ag3)"
    by (cases "learn_optimize ns lib g ag") auto
  note fr = learn_optimize_frame [OF lo]
  from ret lo have r: "r = None"
    by (auto simp: learn_def split: option.splits prod.splits)
  obtain r4 h4 where s1: "soft_update (critic_local ag) (critic_target ag) (tau ag) (params ag3)
      = (r4, h4)"
    by (cases "soft_update (critic_local ag) (critic_target ag) (tau ag) (params ag3)") auto
  from ret lo r s1 fr have r4: "r4 = None"
    by (auto simp: learn_def split: option.splits prod.splits)
  obtain r5 h5 where s2: "soft_update (actor_local ag) (actor_target ag) (tau ag) h4 = (r5, h5)"
    by (cases "soft_update (actor_local ag) (actor_target ag) (tau ag) h4") auto
  from ret lo r s1 r4 s2 fr have fin: "r5 = None" "g1 = g'" "ag' = ag3\<lparr>params := h5\<rparr>"
    by (simp_all add: learn_def)
  then have p: "params ag' = h5" by simp
  have sep: "\<forall>i<length (critic_target ag).
        length (h5 (critic_target ag ! i)) = length (params ag3 (critic_target ag ! i)) \<and>
        (\<forall>j<length (params ag3 (critic_target ag ! i)).
           h5 (critic_target ag ! i) ! j
             = tau ag * params ag3 (critic_local ag ! i) ! j
               + (1 - tau ag) * params ag3 (critic_target ag ! i) ! j)"
    and sep2: "\<forall>i<length (actor_target ag).
        length (h5 (actor_target ag ! i)) = length (params ag3 (actor_target ag ! i)) \<and>
        (\<forall>j<length (params ag3 (actor_target ag ! i)).
           h5 (actor_target ag ! i) ! j
             = tau ag * params ag3 (actor_local ag ! i) ! j
               + (1 - tau ag) * params ag3 (actor_target ag ! i) ! j)"
    and sep3: "\<forall>a. a \<notin> set (critic_target ag) \<union> set (actor_target ag) \<longrightarrow> h5 a = params ag3 a"
    if d: "distinct (critic_target ag @ actor_target ag)"
      and x: "(set (critic_local ag) \<union> set (actor_local ag))
         \<inter> (set (critic_target ag) \<union> set (actor_target ag)) = {}"
      and lc: "length (critic_local ag) = length (critic_target ag)"
      and la: "length (actor_local ag) = length (actor_target ag)"
      and sc: "\<forall>i<length (critic_target ag).
        length (params ag3 (critic_local ag ! i)) = length (params ag3 (critic_target ag ! i))"
      and sa: "\<forall>i<length (actor_target ag).
        length (params ag3 (actor_local ag ! i)) = length (params ag3 (actor_target ag ! i))"
  proof -
    from d have dc: "distinct (critic_target ag)" and da: "distinct (actor_target ag)"
      and ca: "set (critic_target ag) \<inter> set (actor_target ag) = {}" by auto
    from x have xc: "set (critic_local ag) \<inter> set (critic_target ag) = {}"
      and xa: "set (actor_local ag) \<inter> set (actor_target ag) = {}"
      and al_ct: "set (actor_local ag) \<inter> set (critic_target ag) = {}" by auto
    from soft_update_entries [OF lc sc dc xc, of "tau ag"] s1
    have c1: "\<forall>i<length (critic_target ag).
        length (h4 (critic_target ag ! i)) = length (params ag3 (critic_target ag ! i)) \<and>
        (\<forall>j<length (params ag3 (critic_target ag ! i)).
           h4 (critic_target ag ! i) ! j
             = tau ag * params ag3 (critic_local ag ! i) ! j
               + (1 - tau ag) * params ag3 (critic_target ag ! i) ! j)"
      and c3: "\<forall>a. a \<notin> set (critic_target ag) \<longrightarrow> h4 a = params ag3 a"
      by auto
    have al4: "h4 (actor_local ag ! i) = params ag3 (actor_local ag ! i)"
      if "i < length (actor_local ag)" for i
      using that al_ct c3 by (metis disjoint_iff nth_mem)
    have at4: "h4 (actor_target ag ! i) = params ag3 (actor_target ag ! i)"
      if "i < length (actor_target ag)" for i
      using that ca c3 by (metis disjoint_iff nth_mem)
    have sa4: "\<forall>i<length (actor_target ag).
        length (h4 (actor_local ag ! i)) = length (h4 (actor_target ag ! i))"
      using sa la by (simp add: al4 at4)
    from soft_update_entries [OF la sa4 da xa, of "tau ag"] s2
    have a1: "\<forall>i<length (actor_target ag).
        length (h5 (actor_target ag ! i)) = length (h4 (actor_target ag ! i)) \<and>
        (\<forall>j<length (h4 (actor_target ag ! i)).
           h5 (actor_target ag ! i) ! j
             = tau ag * h4 (actor_local ag ! i) ! j + (1 - tau ag) * h4 (actor_target ag ! i) ! j)"
      and a3: "\<forall>a. a \<notin> set (actor_target ag) \<longrightarrow> h5 a = h4 a"
      by auto
    have ct5: "h5 (critic_target ag ! i) = h4 (critic_target ag ! i)"
      if "i < length (critic_target ag)" for i
      using that ca a3 by (metis disjoint_iff nth_mem)
    show "\<forall>i<length (critic_target ag).
        length (h5 (critic_target ag ! i)) = length (params ag3 (critic_target ag ! i)) \<and>
        (\<forall>j<length (params ag3 (critic_target ag ! i)).
           h5 (critic_target ag ! i) ! j
             = tau ag * params ag3 (critic_local ag ! i) ! j
               + (1 - tau ag) * params ag3 (critic_target ag ! i) ! j)"
      using c1 by (simp add: ct5)
    show "\<forall>i<length (actor_target ag).
        length (h5 (actor_target ag ! i)) = length (params ag3 (actor_target ag ! i)) \<and>
        (\<forall>j<length (params ag3 (actor_target ag ! i)).
           h5 (actor_target ag ! i) ! j
             = tau ag * params ag3 (actor_local ag ! i) ! j
               + (1 - tau ag) * params ag3 (actor_target ag ! i) ! j)"
      using a1 la by (simp add: al4 at4)
    show "\<forall>a. a \<notin> set (critic_target ag) \<union> set (actor_target ag) \<longrightarrow> h5 a = params ag3 a"
      using c3 a3 by simp
  qed
  have "learn_optimize ns lib g ag = (None, g', ag3)" using lo r fin by simp
  moreover have "soft_update (critic_local ag) (critic_target ag) (tau ag) (params ag3) = (None, h4)"
    using s1 r4 by simp
  moreover have "soft_update (actor_local ag) (actor_target ag) (tau ag) h4 = (None, params ag')"
    using s2 fin p by simp
  moreover have "ag' = ag3\<lparr>params := params ag'\<rparr>" using fin p by simp
  ultimately show ?thesis
    using sep sep2 sep3 unfolding p by blast
qed

theorem learn_soft_updates_targets_witness:
  "learn example_globals example_torch (\<lambda>i. 0) example_learner
     = (None, (\<lambda>i. 0),
        example_learner\<lparr>exploration := 0.999,
          params := (\<lambda>a. if a = 1 then [1.009, 1] else if a = 3 then [3.001, 1]
                         else if a = 0 then [10, 1] else if a = 2 then [4, 1]
                         else [of_nat a, 1])\<rparr>) \<and>
   params example_learner 3 = [3, 1] \<and> params example_learner 1 = [1, 1] \<and>
   tau example_learner = 0.001"
proof -
  let ?h = "\<lambda>a::nat. if a = 1 then [1.009, 1] else if a = 3 then [3.001, 1]
                         else if a = 0 then [10, 1] else if a = 2 then [4, 1]
                         else [of_nat a, 1 :: real]"
  have s: "ReplayBuffer_sample (\<lambda>i. 0) (memory example_learner)
      = (Inr ([[1]], [[0, 0, 0]], [[1]], [[2]], [[0]]), (\<lambda>i. 0))"
    by (simp add: example_learner_def example_agent_def ReplayBuffer_sample_def
        random_sample_def stack_batch_def np_vstack_def Let_def)
  have o: "learn_optimize example_globals example_torch (\<lambda>i. 0) example_learner
      = (None, (\<lambda>i. 0),
         example_learner\<lparr>exploration := 0.999,
           params := (\<lambda>a. if a = 0 then [10, 1] else if a = 2 then [4, 1] else [of_nat a, 1])\<rparr>)"
    by (simp add: learn_optimize_def s Let_def example_globals_def py_slice_def column_def
        example_torch_def)
      (simp add: example_learner_def example_agent_def example_networks_def fun_eq_iff)
  have e: "learn example_globals example_torch (\<lambda>i. 0) example_learner
      = (None, (\<lambda>i. 0), example_learner\<lparr>exploration := 0.999, params := ?h\<rparr>)"
    by (simp add: learn_def o)
      (simp add: example_learner_def example_agent_def soft_update_def torch_add_def
        broadcast_def scale_def torch_copy_def fun_eq_iff)
  have v: "params example_learner 3 = [3, 1]" "params example_learner 1 = [1, 1]"
    "tau example_learner = 0.001"
    by (simp_all add: example_learner_def example_agent_def example_networks_def)
  from learn_soft_updates_targets [OF e] e v show ?thesis by simp
qed

text \<open>
  C2. The claim is that no operation raises an error of the glue code itself, and
  that \<^verbatim>\<open>learn\<close>, as invoked by \<^verbatim>\<open>trigger_learn\<close>, completes once the buffer holds more
  than \<^verbatim>\<open>batch_size\<close> experiences. The code does not: on an agent built with
  \<^verbatim>\<open>buffer_size=10\<close> and \<^verbatim>\<open>batch_size=1\<close> that has memorized two experiences,
  \<^verbatim>\<open>trigger_learn\<close> raises \<open>AttributeError\<close>, which is no error of a library, whatever the
  namespace of the module binds.
\<close>

theorem trigger_learn_raises_AttributeError:
  "(case DDGP_init nets nm ss 1 seed 10 1 mre cli le lra lrc wd t gm of
      Inl err \<Rightarrow> False
    | Inr ag0 \<Rightarrow>
        fst (trigger_learn ns lib g (memorize (memorize ag0 s a r s' d) s a r s' d))
          = Some AttributeError) \<and>
   \<not> library_error AttributeError"
  by (simp add: DDGP_init_def OUNoise_init_def ReplayBuffer_init_def deque_init_def
      trigger_learn_def Let_def memorize_def ReplayBuffer_add_def ReplayBuffer_len_def
      deque_append_def learn_unbound)

section \<open>Properties of checkpoints\<close>

lemma save_writable:
  "writable fs (os_path_join save_path (name ag @ ''i_episode-'' @ str_int iteration @ ''.pt'')) \<Longrightarrow>
   save fs ag save_path iteration
     = (None,
        fs\<lparr>contents := (contents fs)
             (os_path_join save_path (name ag @ ''i_episode-'' @ str_int iteration @ ''.pt'')
                \<mapsto> save_dict ag)\<rparr>,
        ag)"
  by (simp only: save_def torch_save_def if_True prod.case)

lemma save_unwritable:
  "\<not> writable fs (os_path_join save_path (name ag @ ''i_episode-'' @ str_int iteration @ ''.pt'')) \<Longrightarrow>
   save fs ag save_path iteration = (Some OSError, fs, ag)"
  by (simp only: save_def torch_save_def if_False prod.case)

lemma save_agent: "snd (snd (save fs ag save_path iteration)) = ag"
proof (cases "writable fs
    (os_path_join save_path (name ag @ ''i_episode-'' @ str_int iteration @ ''.pt''))")
  case True
  from save_writable [OF True] show ?thesis by (simp only: snd_conv)
next
  case False
  from save_unwritable [OF False] show ?thesis by (simp only: snd_conv)
qed

lemma save_dict_keys:
  "map fst (save_dict ag)
     = [''actor_local_params'', ''actor_target_params'', ''actor_optim_params'',
        ''critic_local_params'', ''critic_target_params'', ''critic_optim_params'']"
  by (simp add: save_dict_def)

lemma save_dict_values:
  "map_of (save_dict ag) ''actor_local_params'' = Some (Network_state (map (params ag) (actor_local ag)))"
  "map_of (save_dict ag) ''actor_target_params'' = Some (Network_state (map (params ag) (actor_target ag)))"
  "map_of (save_dict ag) ''actor_optim_params'' = Some (Optimizer_state (actor_optimizer ag))"
  "map_of (save_dict ag) ''critic_local_params'' = Some (Network_state (map (params ag) (critic_local ag)))"
  "map_of (save_dict ag) ''critic_target_params'' = Some (Network_state (map (params ag) (critic_target ag)))"
  "map_of (save_dict ag) ''critic_optim_params'' = Some (Optimizer_state (critic_optimizer ag))"
  by (simp_all add: save_dict_def state_dict_def)


text \<open>
  C7, as the code has it. The claim is that \<^verbatim>\<open>save\<close> writes the checkpoint for every
  \<^verbatim>\<open>save_path\<close>. \<^verbatim>\<open>save\<close> hands the path
  \<^verbatim>\<open>os.path.join(save_path, name + 'i_episode-' + str(iteration) + '.pt')\<close> to
  \<^verbatim>\<open>torch.save\<close> and does not handle its error. Where a file at that path can be opened
  for writing, the call returns and the file holds one dictionary with exactly the six
  keys of the source, which hold the state dictionaries of the four networks and the two
  optimizers, and every other file is as before. Where it cannot, the call raises the
  error of \<^verbatim>\<open>torch.save\<close> and no file changes. The agent is unchanged in both cases.
\<close>

theorem save_writes_checkpoint:
  "snd (snd (save fs ag save_path iteration)) = ag \<and>
   (writable fs (os_path_join save_path (name ag @ ''i_episode-'' @ str_int iteration @ ''.pt''))
    \<longrightarrow>
    fst (save fs ag save_path iteration) = None \<and>
    (\<exists>d. fst (snd (save fs ag save_path iteration))
           = fs\<lparr>contents := (contents fs)
                 (os_path_join save_path (name ag @ ''i_episode-'' @ str_int iteration @ ''.pt'')
                    \<mapsto> d)\<rparr> \<and>
         map fst d = [''actor_local_params'', ''actor_target_params'', ''actor_optim_params'',
                      ''critic_local_params'', ''critic_target_params'', ''critic_optim_params''] \<and>
         map_of d ''actor_local_params'' = Some (Network_state (map (params ag) (actor_local ag))) \<and>
         map_of d ''actor_target_params'' = Some (Network_state (map (params ag) (actor_target ag))) \<and>
         map_of d ''actor_optim_params'' = Some (Optimizer_state (actor_optimizer ag)) \<and>
         map_of d ''critic_local_params'' = Some (Network_state (map (params ag) (critic_local ag))) \<and>
         map_of d ''critic_target_params'' = Some (Network_state (map (params ag) (critic_target ag))) \<and>
         map_of d ''critic_optim_params'' = Some (Optimizer_state (critic_optimizer ag)))) \<and>
   (\<not> writable fs (os_path_join save_path (name ag @ ''i_episode-'' @ str_int iteration @ ''.pt''))
    \<longrightarrow>
    fst (save fs ag save_path iteration) = Some OSError \<and>
    fst (snd (save fs ag save_path iteration)) = fs)"
proof (intro conjI impI)
  show "snd (snd (save fs ag save_path iteration)) = ag" by (rule save_agent)
next
  assume w: "writable fs
    (os_path_join save_path (name ag @ ''i_episode-'' @ str_int iteration @ ''.pt''))"
  from save_writable [OF w] show "fst (save fs ag save_path iteration) = None"
    by (simp only: fst_conv)
next
  assume w: "writable fs
    (os_path_join save_path (name ag @ ''i_episode-'' @ str_int iteration @ ''.pt''))"
  have "fst (snd (save fs ag save_path iteration))
      = fs\<lparr>contents := (contents fs)
            (os_path_join save_path (name ag @ ''i_episode-'' @ str_int iteration @ ''.pt'')
               \<mapsto> save_dict ag)\<rparr>"
    using save_writable [OF w] by (simp only: fst_conv snd_conv)
  with save_dict_keys [of ag] save_dict_values [of ag]
  show "\<exists>d. fst (snd (save fs ag save_path iteration))
           = fs\<lparr>contents := (contents fs)
                 (os_path_join save_path (name ag @ ''i_episode-'' @ str_int iteration @ ''.pt'')
                    \<mapsto> d)\<rparr> \<and>
         map fst d = [''actor_local_params'', ''actor_target_params'', ''actor_optim_params'',
                      ''critic_local_params'', ''critic_target_params'', ''critic_optim_params''] \<and>
         map_of d ''actor_local_params'' = Some (Network_state (map (params ag) (actor_local ag))) \<and>
         map_of d ''actor_target_params'' = Some (Network_state (map (params ag) (actor_target ag))) \<and>
         map_of d ''actor_optim_params'' = Some (Optimizer_state (actor_optimizer ag)) \<and>
         map_of d ''critic_local_params'' = Some (Network_state (map (params ag) (critic_local ag))) \<and>
         map_of d ''critic_target_params'' = Some (Network_state (map (params ag) (critic_target ag))) \<and>
         map_of d ''critic_optim_params'' = Some (Optimizer_state (critic_optimizer ag))"
    by (intro exI [of _ "save_dict ag"] conjI)
next
  assume w: "\<not> writable fs
    (os_path_join save_path (name ag @ ''i_episode-'' @ str_int iteration @ ''.pt''))"
  from save_unwritable [OF w] show "fst (save fs ag save_path iteration) = Some OSError"
    by (simp only: fst_conv)
next
  assume w: "\<not> writable fs
    (os_path_join save_path (name ag @ ''i_episode-'' @ str_int iteration @ ''.pt''))"
  from save_unwritable [OF w] show "fst (snd (save fs ag save_path iteration)) = fs"
    by (simp only: fst_conv snd_conv)
qed

lemma example_path:
  "os_path_join ''ckpt'' (name example_agent @ ''i_episode-'' @ str_int 120 @ ''.pt'')
     = ''ckpt/agent0i_episode-120.pt''"
  by (simp add: os_path_join_def str_int_def str_nat.simps example_agent_def)

lemma example_save_dict:
  "save_dict example_agent
     = [(''actor_local_params'', Network_state [[0, 1]]),
        (''actor_target_params'', Network_state [[1, 1]]),
        (''actor_optim_params'', Optimizer_state ()),
        (''critic_local_params'', Network_state [[2, 1]]),
        (''critic_target_params'', Network_state [[3, 1]]),
        (''critic_optim_params'', Optimizer_state ())]"
  by (simp add: save_dict_def state_dict_def example_agent_def example_networks_def)

theorem save_writes_checkpoint_witness:
  "writable example_files ''ckpt/agent0i_episode-120.pt'' \<and>
   fst (save example_files example_agent ''ckpt'' 120) = None \<and>
   contents (fst (snd (save example_files example_agent ''ckpt'' 120)))
       ''ckpt/agent0i_episode-120.pt''
     = Some [(''actor_local_params'', Network_state [[0, 1]]),
             (''actor_target_params'', Network_state [[1, 1]]),
             (''actor_optim_params'', Optimizer_state ()),
             (''critic_local_params'', Network_state [[2, 1]]),
             (''critic_target_params'', Network_state [[3, 1]]),
             (''critic_optim_params'', Optimizer_state ())] \<and>
   snd (snd (save example_files example_agent ''ckpt'' 120)) = example_agent"
proof -
  have w: "writable example_files ''ckpt/agent0i_episode-120.pt''"
    by (simp add: example_files_def)
  then have w': "writable example_files
      (os_path_join ''ckpt'' (name example_agent @ ''i_episode-'' @ str_int 120 @ ''.pt''))"
    by (simp only: example_path)
  have c: "contents (fst (snd (save example_files example_agent ''ckpt'' 120)))
       ''ckpt/agent0i_episode-120.pt'' = Some (save_dict example_agent)"
    by (simp only: save_writable [OF w'] example_path fst_conv snd_conv) simp
  from save_writes_checkpoint [of example_files example_agent "''ckpt''" 120] w' w c
  show ?thesis by (simp only: example_save_dict)
qed

theorem save_unwritable_counterexample:
  "save empty_files example_agent ''ckpt'' 120 = (Some OSError, empty_files, example_agent) \<and>
   contents empty_files ''ckpt/agent0i_episode-120.pt'' = None \<and>
   os_path_join ''ckpt'' (name example_agent @ ''i_episode-'' @ str_int 120 @ ''.pt'')
     = ''ckpt/agent0i_episode-120.pt''"
proof -
  have "\<not> writable empty_files
      (os_path_join ''ckpt'' (name example_agent @ ''i_episode-'' @ str_int 120 @ ''.pt''))"
    by (simp add: empty_files_def)
  from save_unwritable [OF this] example_path show ?thesis
    by (simp add: empty_files_def)
qed

text \<open>Paths: a trailing separator, an empty directory, an absolute name, a negative number.\<close>

lemma save_path_examples:
  "os_path_join ''ckpt/'' (''a'' @ ''i_episode-'' @ str_int 7 @ ''.pt'') = ''ckpt/ai_episode-7.pt''"
  "os_path_join '''' (''a'' @ ''i_episode-'' @ str_int 0 @ ''.pt'') = ''ai_episode-0.pt''"
  "os_path_join ''ckpt'' (''/a'' @ ''i_episode-'' @ str_int 1005 @ ''.pt'') = ''/ai_episode-1005.pt''"
  "os_path_join ''x/y'' (''a'' @ ''i_episode-'' @ str_int (- 12) @ ''.pt'') = ''x/y/ai_episode--12.pt''"
  by (simp_all add: os_path_join_def str_int_def str_nat.simps)

section \<open>Properties of acting\<close>

lemma np_clip_entry:
  "lo \<le> hi \<Longrightarrow> x \<in> set (np_clip a lo hi) \<Longrightarrow> x = NaN \<or> in_interval lo hi x"
proof -
  assume le: "lo \<le> hi" and "x \<in> set (np_clip a lo hi)"
  then obtain y where x: "x = np_minimum (Num hi) (np_maximum y (Num lo))"
    by (auto simp: np_clip_def)
  show ?thesis using le by (cases y) (simp_all add: x)
qed

lemma np_clip_nan:
  "length (np_clip a lo hi) = length a \<and>
   (\<forall>i<length a. np_clip a lo hi ! i = NaN \<longleftrightarrow> a ! i = NaN)"
proof -
  have "np_minimum (Num hi) (np_maximum y (Num lo)) = NaN \<longleftrightarrow> y = NaN" for y
    by (cases y) simp_all
  then show ?thesis by (simp add: np_clip_def)
qed

lemma np_iadd_nan:
  "np_iadd a (map Num b) = Inr a' \<Longrightarrow>
   length a' = length a \<and> (\<forall>i<length a. a' ! i = NaN \<longleftrightarrow> a ! i = NaN)"
proof -
  assume r: "np_iadd a (map Num b) = Inr a'"
  have p: "y + Num v = NaN \<longleftrightarrow> y = NaN" for y :: "'a float" and v
    by (cases y) simp_all
  show ?thesis
  proof (cases "length b = length a")
    case True
    with r have "a' = map2 (+) a (map Num b)" by (simp add: np_iadd_def)
    then show ?thesis using True by (simp add: p)
  next
    case False
    with r have one: "length b = 1" and a': "a' = map (\<lambda>x. x + hd (map Num b)) a"
      by (auto simp: np_iadd_def split: if_splits)
    from one obtain v where "b = [v]" by (cases b) auto
    then show ?thesis using a' by (simp add: p)
  qed
qed

text \<open>
  C8, as the code has it. The claim is that every component of the array returned by
  \<^verbatim>\<open>act\<close> lies in the interval from -1 to 1, for every state. \<^verbatim>\<open>np.clip\<close> passes NaN
  through, so this holds of the components that are numbers: every component of a returned
  array is NaN or lies between -1 and 1, with or without noise, and it is NaN exactly where
  the output of the actor network is NaN.
\<close>

theorem act_in_unit_interval:
  assumes ret: "fst (act lib g ag s add_noise) = Inr a"
  shows "(\<forall>x\<in>set a. x = NaN \<or> in_interval (- 1) 1 x) \<and>
    (\<exists>v. actor_forward lib (params ag) (actor_local ag) s = Inr v \<and>
         length a = length v \<and> (\<forall>i<length a. a ! i = NaN \<longleftrightarrow> v ! i = NaN))"
proof -
  from ret obtain v where fw: "actor_forward lib (params ag) (actor_local ag) s = Inr v"
    by (cases "actor_forward lib (params ag) (actor_local ag) s") (auto simp: act_def)
  have "\<exists>v'. a = np_clip v' (- 1) 1 \<and> length v' = length v \<and>
      (\<forall>i<length v. v' ! i = NaN \<longleftrightarrow> v ! i = NaN)"
  proof (cases add_noise)
    case False
    with ret fw have "a = np_clip v (- 1) 1" by (simp add: act_def)
    then show ?thesis by auto
  next
    case True
    with ret fw obtain n v' where "np_iadd v (map Num n) = Inr v'" and "a = np_clip v' (- 1) 1"
      by (auto simp: act_def split: prod.splits sum.splits)
    with np_iadd_nan [of v n v'] show ?thesis by auto
  qed
  then obtain v' where a: "a = np_clip v' (- 1) 1" and l: "length v' = length v"
    and n: "\<forall>i<length v. v' ! i = NaN \<longleftrightarrow> v ! i = NaN" by blast
  have "(- 1 :: 'a) \<le> 1" by simp
  then have 1: "\<forall>x\<in>set a. x = NaN \<or> in_interval (- 1) 1 x"
    unfolding a using np_clip_entry by blast
  have 2: "length a = length v \<and> (\<forall>i<length a. a ! i = NaN \<longleftrightarrow> v ! i = NaN)"
    using np_clip_nan [of v' "- 1" 1] l n by (simp add: a)
  from 1 2 fw show ?thesis by blast
qed

theorem act_in_unit_interval_witness:
  "fst (act example_torch (\<lambda>i. 2 ^ 52) example_agent [Num 0] True)
     = Inr [Num 1, Num (- 1), Num 0.6] \<and>
   in_interval (- 1) 1 (Num 1 :: real float) \<and>
   in_interval (- 1) 1 (Num (- 1) :: real float) \<and>
   in_interval (- 1) 1 (Num 0.6 :: real float)"
proof -
  have r: "fst (act example_torch (\<lambda>i. 2 ^ 52) example_agent [Num 0] True)
      = Inr [Num 1, Num (- 1), Num 0.6]"
    by (simp add: example_agent_def act_def example_torch_def example_networks_def
        OUNoise_sample_def np_sub_def np_add_def broadcast_def scale_def scale_right_def
        np_iadd_def np_clip_def random_random_def Let_def numeral_3_eq_3)
  from act_in_unit_interval [OF r] r show ?thesis by simp
qed

theorem act_nan_counterexample:
  "fst (act identity_torch (constant_rng 0) example_agent [NaN] False) = Inr [NaN] \<and>
   fst (act identity_torch (constant_rng 0) example_agent [NaN, Num 3, Num 0] True)
     = Inr [NaN, Num 1, Num 0] \<and>
   \<not> in_interval (- 1) 1 (NaN :: real float)"
  by (simp add: example_agent_def act_def identity_torch_def example_torch_def constant_rng_def
      example_networks_def OUNoise_sample_def np_sub_def np_add_def broadcast_def scale_def
      scale_right_def np_iadd_def np_clip_def random_random_def Let_def numeral_3_eq_3)

section \<open>Properties of the exploration coefficient\<close>

lemma trigger_learn_exploration:
  "exploration (snd (snd (trigger_learn ns lib g ag)))
     = (if batch_size ag < int (ReplayBuffer_len (memory ag))
        then exploration ag * 0.975 * 0.999 else exploration ag * 0.975)"
  by (simp add: trigger_learn_def Let_def learn_exploration)

lemma update_counter_exploration:
  "exploration (snd (update_counter ag)) = exploration ag"
  by (simp add: update_counter_def Let_def)

lemma act_exploration:
  "exploration (snd (snd (act lib g ag s add_noise))) = exploration ag"
  by (simp add: act_def split: sum.splits prod.splits)

lemma step_exploration:
  "exploration (w_agent (step ns lib w x)) =
     (case x of
        Trigger_learn \<Rightarrow>
          if batch_size (w_agent w) < int (ReplayBuffer_len (memory (w_agent w)))
          then exploration (w_agent w) * 0.975 * 0.999
          else exploration (w_agent w) * 0.975
      | Learn \<Rightarrow> exploration (w_agent w) * 0.999
      | _ \<Rightarrow> exploration (w_agent w))"
proof (cases x)
  case (Memorize s a r s' d)
  then show ?thesis by (simp add: memorize_def)
next
  case Trigger_learn
  then show ?thesis
    using trigger_learn_exploration [of ns lib "w_rng w" "w_agent w"]
    by (simp add: split_beta)
next
  case Update_counter
  then show ?thesis
    using update_counter_exploration [of "w_agent w"] by (simp add: split_beta)
next
  case (Act s add_noise)
  then show ?thesis
    using act_exploration [of lib "w_rng w" "w_agent w" s add_noise] by (simp add: split_beta)
next
  case Reset
  then show ?thesis by (simp add: reset_def)
next
  case Learn
  then show ?thesis
    using learn_exploration [of ns lib "w_rng w" "w_agent w"] by (simp add: split_beta)
next
  case (Soft_update l t c)
  then show ?thesis by (simp add: split_beta)
next
  case (Save p i)
  then show ?thesis
    using save_agent [of "w_files w" "w_agent w" p i] by (simp add: split_beta)
qed

lemma step_exploration_bounds:
  assumes "0 < exploration (w_agent w)"
  shows "0 < exploration (w_agent (step ns lib w x)) \<and>
         exploration (w_agent (step ns lib w x)) \<le> exploration (w_agent w)"
proof -
  let ?e = "exploration (w_agent w)"
  have a: "0 < ?e * 0.975 \<and> ?e * 0.975 \<le> ?e" using assms by simp
  have b: "0 < ?e * 0.999 \<and> ?e * 0.999 \<le> ?e" using assms by simp
  have c: "0 < ?e * 0.975 * 0.999 \<and> ?e * 0.975 * 0.999 \<le> ?e"
  proof
    show "0 < ?e * 0.975 * 0.999" using assms by simp
    have "?e * 0.975 * 0.999 \<le> ?e * 0.975" using assms by simp
    also have "\<dots> \<le> ?e" using assms by simp
    finally show "?e * 0.975 * 0.999 \<le> ?e" .
  qed
  show ?thesis
    using a b c assms by (simp only: step_exploration split: operation.split) simp
qed

lemma run_exploration_bounds:
  "0 < exploration (w_agent w) \<Longrightarrow>
   0 < exploration (w_agent (run ns lib w xs)) \<and>
   exploration (w_agent (run ns lib w xs)) \<le> exploration (w_agent w)"
proof (induction xs arbitrary: w)
  case Nil
  then show ?case by simp
next
  case (Cons x xs)
  from step_exploration_bounds [OF Cons.prems, of ns lib x]
  have s: "0 < exploration (w_agent (step ns lib w x))"
    and l: "exploration (w_agent (step ns lib w x)) \<le> exploration (w_agent w)" by simp_all
  from Cons.IH [OF s] l show ?case by simp
qed

lemma example_agent_init:
  "DDGP_init example_networks ''agent0'' 1 3 0 10 1 200 2 4 0.0001 0.001 0.0001 0.001 0.99
     = Inr example_agent"
  by (simp add: DDGP_init_def OUNoise_init_def OUNoise_reset_def ReplayBuffer_init_def
      deque_init_def example_agent_def example_networks_def scale_def numeral_3_eq_3)

text \<open>
  C9. The exploration coefficient of a newly built agent is 1. After any sequence
  \<open>xs\<close> of operations it is positive and at most 1, and one more operation \<open>x\<close> does not
  increase it: \<^verbatim>\<open>learn\<close> multiplies it by 0.999, \<^verbatim>\<open>trigger_learn\<close> by 0.975 (and by
  0.999 as well when it calls \<^verbatim>\<open>learn\<close>), every other operation leaves it unchanged.
\<close>

theorem exploration_invariant:
  assumes init: "DDGP_init nets nm ssz asz seed bsz bat mre cli le lra lrc wd t0 gm = Inr ag0"
  shows "exploration ag0 = 1 \<and>
    0 < exploration (w_agent (run ns lib \<lparr>w_rng = g, w_files = fs, w_agent = ag0\<rparr> xs)) \<and>
    exploration (w_agent (run ns lib \<lparr>w_rng = g, w_files = fs, w_agent = ag0\<rparr> xs)) \<le> 1 \<and>
    exploration (w_agent (step ns lib (run ns lib \<lparr>w_rng = g, w_files = fs, w_agent = ag0\<rparr> xs) x))
      \<le> exploration (w_agent (run ns lib \<lparr>w_rng = g, w_files = fs, w_agent = ag0\<rparr> xs)) \<and>
    exploration (w_agent (step ns lib (run ns lib \<lparr>w_rng = g, w_files = fs, w_agent = ag0\<rparr> xs) x))
      = (case x of
           Trigger_learn \<Rightarrow>
             if batch_size (w_agent (run ns lib \<lparr>w_rng = g, w_files = fs, w_agent = ag0\<rparr> xs))
                < int (ReplayBuffer_len
                    (memory (w_agent (run ns lib \<lparr>w_rng = g, w_files = fs, w_agent = ag0\<rparr> xs))))
             then exploration (w_agent (run ns lib \<lparr>w_rng = g, w_files = fs, w_agent = ag0\<rparr> xs))
                    * 0.975 * 0.999
             else exploration (w_agent (run ns lib \<lparr>w_rng = g, w_files = fs, w_agent = ag0\<rparr> xs))
                    * 0.975
         | Learn \<Rightarrow>
             exploration (w_agent (run ns lib \<lparr>w_rng = g, w_files = fs, w_agent = ag0\<rparr> xs)) * 0.999
         | _ \<Rightarrow> exploration (w_agent (run ns lib \<lparr>w_rng = g, w_files = fs, w_agent = ag0\<rparr> xs)))"
proof -
  let ?w0 = "\<lparr>w_rng = g, w_files = fs, w_agent = ag0\<rparr>"
  from init have e0: "exploration ag0 = 1"
    by (auto simp: DDGP_init_def split: sum.splits)
  then have "0 < exploration (w_agent ?w0)" by simp
  from run_exploration_bounds [OF this, of ns lib xs]
  have pos: "0 < exploration (w_agent (run ns lib ?w0 xs))"
    and le: "exploration (w_agent (run ns lib ?w0 xs)) \<le> 1" by (simp_all add: e0)
  from step_exploration_bounds [OF pos, of ns lib x]
  have mono: "exploration (w_agent (step ns lib (run ns lib ?w0 xs) x))
      \<le> exploration (w_agent (run ns lib ?w0 xs))" by simp
  show ?thesis
    using e0 pos le mono step_exploration [of ns lib "run ns lib ?w0 xs" x] by simp
qed

theorem exploration_invariant_witness:
  "DDGP_init example_networks ''agent0'' 1 3 0 10 1 200 2 4 0.0001 0.001 0.0001 0.001 0.99
     = Inr example_agent \<and>
   exploration (w_agent (step module_globals example_torch
     (run module_globals example_torch \<lparr>w_rng = (\<lambda>i. 0), w_files = example_files, w_agent = example_agent\<rparr>
        [Trigger_learn, Update_counter]) Learn)) = 0.975 * 0.999 \<and>
   0 < exploration (w_agent
     (run module_globals example_torch \<lparr>w_rng = (\<lambda>i. 0), w_files = example_files, w_agent = example_agent\<rparr>
        [Trigger_learn, Update_counter])) \<and>
   exploration (w_agent
     (run module_globals example_torch \<lparr>w_rng = (\<lambda>i. 0), w_files = example_files, w_agent = example_agent\<rparr>
        [Trigger_learn, Update_counter])) \<le> 1"
proof -
  have e: "exploration (w_agent
     (run module_globals example_torch \<lparr>w_rng = (\<lambda>i. 0), w_files = example_files, w_agent = example_agent\<rparr>
        [Trigger_learn, Update_counter])) = 0.975"
    by (simp add: example_agent_def trigger_learn_def update_counter_def ReplayBuffer_len_def
        Let_def)
  from exploration_invariant [OF example_agent_init, of module_globals example_torch "\<lambda>i. 0" example_files
      "[Trigger_learn, Update_counter]" Learn]
  show ?thesis using example_agent_init by (simp add: e del: run.simps step.simps)
qed

section \<open>Properties of the step counter\<close>

lemma update_counter_state:
  assumes "learn_every ag \<noteq> 0 \<or> 0 \<le> step_mem ag"
  shows "snd (update_counter ag)
     = ag\<lparr>step_mem := step_mem ag + 1,
          train := train ag \<or> learn_every ag dvd step_mem ag + 1\<rparr>"
proof -
  consider (zero) "learn_every ag = 0"
    | (multiple) "learn_every ag \<noteq> 0" "learn_every ag dvd step_mem ag + 1"
    | (other) "learn_every ag \<noteq> 0" "\<not> learn_every ag dvd step_mem ag + 1"
    by blast
  then show ?thesis
  proof cases
    case zero
    with assms have "\<not> learn_every ag dvd step_mem ag + 1" by simp
    then show ?thesis using zero by (simp add: update_counter_def Let_def)
  next
    case multiple
    then have "(step_mem ag + 1) mod learn_every ag = 0" by (simp add: mod_eq_0_iff_dvd)
    then show ?thesis using multiple by (simp add: update_counter_def Let_def)
  next
    case other
    then have "(step_mem ag + 1) mod learn_every ag \<noteq> 0" by (simp add: mod_eq_0_iff_dvd)
    then show ?thesis using other by (simp add: update_counter_def Let_def)
  qed
qed

text \<open>
  C10. \<^verbatim>\<open>update_counter\<close> increments \<^verbatim>\<open>step_mem\<close> by one and sets \<^verbatim>\<open>train\<close>
  exactly when the incremented counter is a multiple of \<^verbatim>\<open>learn_every\<close>, never clearing
  it, and changes nothing else; it returns without an error unless \<^verbatim>\<open>learn_every\<close> is
  zero. (The counter of an agent is never negative; the hypothesis covers every such agent
  and every agent with a nonzero \<^verbatim>\<open>learn_every\<close>.) \<^verbatim>\<open>reset\<close> sets the counter to 0,
  \<^verbatim>\<open>train\<close> to false and the state of the noise to its mean, and leaves the replay
  buffer, the networks, the optimizers and the exploration coefficient unchanged.
\<close>

theorem update_counter_and_reset:
  assumes "learn_every ag \<noteq> 0 \<or> 0 \<le> step_mem ag"
  shows "snd (update_counter ag)
      = ag\<lparr>step_mem := step_mem ag + 1,
           train := train ag \<or> learn_every ag dvd step_mem ag + 1\<rparr> \<and>
    (learn_every ag \<noteq> 0 \<longrightarrow> fst (update_counter ag) = None) \<and>
    reset ag = ag\<lparr>noise := (noise ag)\<lparr>state := mu (noise ag)\<rparr>, step_mem := 0, train := False\<rparr> \<and>
    memory (reset ag) = memory ag \<and>
    params (reset ag) = params ag \<and>
    actor_local (reset ag) = actor_local ag \<and>
    actor_target (reset ag) = actor_target ag \<and>
    critic_local (reset ag) = critic_local ag \<and>
    critic_target (reset ag) = critic_target ag \<and>
    actor_optimizer (reset ag) = actor_optimizer ag \<and>
    critic_optimizer (reset ag) = critic_optimizer ag \<and>
    exploration (reset ag) = exploration ag"
proof -
  have "learn_every ag \<noteq> 0 \<longrightarrow> fst (update_counter ag) = None"
    by (simp add: update_counter_def Let_def)
  then show ?thesis
    using update_counter_state [OF assms] by (simp add: reset_def OUNoise_reset_def)
qed

theorem update_counter_and_reset_witness:
  "learn_every (example_agent\<lparr>step_mem := 3\<rparr>) = 4 \<and>
   step_mem (example_agent\<lparr>step_mem := 3\<rparr>) = 3 \<and>
   update_counter (example_agent\<lparr>step_mem := 3\<rparr>)
     = (None, example_agent\<lparr>step_mem := 4, train := True\<rparr>) \<and>
   reset (example_agent\<lparr>step_mem := 3\<rparr>) = example_agent"
proof -
  let ?ag = "example_agent\<lparr>step_mem := 3\<rparr>"
  have h: "learn_every ?ag \<noteq> 0 \<or> 0 \<le> step_mem ?ag"
    by (simp add: example_agent_def)
  have v: "learn_every ?ag = 4" "step_mem ?ag = 3" "train ?ag = False"
    by (simp_all add: example_agent_def)
  from update_counter_and_reset [OF h]
  have u: "snd (update_counter ?ag) = example_agent\<lparr>step_mem := 4, train := True\<rparr>"
    and n: "fst (update_counter ?ag) = None"
    and r: "reset ?ag = example_agent"
    by (simp_all add: v) (simp add: example_agent_def)
  from u n have "update_counter ?ag = (None, example_agent\<lparr>step_mem := 4, train := True\<rparr>)"
    by (simp add: prod_eq_iff)
  with v r show ?thesis by simp
qed

end
